theory Spec2Isabelle
  imports Main "HOL-Library.Char_ord" "HOL-Library.List_Lexorder"
begin

section \<open>Errors\<close>

text \<open>
  The exceptions of the source become values. \<open>KeyError\<close> is raised by a dictionary
  lookup of a missing key, \<open>AttributeError\<close> by reading an attribute an object does not
  have (also an attribute of \<open>None\<close>), \<open>DatabaseError\<close> by the data source when it cannot
  run a query.
\<close>

datatype error = KeyError string | AttributeError string | DatabaseError

section \<open>The relational store\<close>

text \<open>
  One record per table row, with the columns the queries of
  \<^verbatim>\<open>taiga/projects/userstories/services.py\<close> read. A nullable column is an \<open>option\<close>.
  Python strings are ordered by code point, position by position; \<open>string\<close> with the
  order of \<open>Char_ord\<close> and \<open>List_Lexorder\<close> is that order on their UTF-8 bytes.
\<close>

record project =
  p_id :: int

record userstorystatus =
  uss_id :: int
  uss_name :: string
  uss_color :: string
  uss_order :: int
  uss_is_closed :: bool
  uss_project_id :: int

record userstory =
  us_id :: int
  project_id :: int
  status_id :: "int option"
  assigned_to_id :: "int option"
  owner_id :: "int option"
  tags :: "string list option"

record membership =
  mem_project_id :: int
  mem_user_id :: "int option"

record user =
  user_id :: int
  full_name :: string
  is_system :: bool

record database =
  userstories_userstory :: "userstory list"
  projects_project :: "project list"
  projects_userstorystatus :: "userstorystatus list"
  projects_membership :: "membership list"
  users_user :: "user list"

section \<open>calculate\_userstory\_is\_closed\<close>

text \<open>
  The user story object as \<open>calculate_userstory_is_closed\<close> reads it: its status (or
  \<open>None\<close>) and its tasks, each with a status (or \<open>None\<close>).
\<close>

record taskstatus =
  ts_is_closed :: bool

record task =
  task_status :: "taskstatus option"

record user_story =
  status :: "userstorystatus option"
  tasks :: "task list"

text \<open>\<open>[task.status.is_closed for task in user_story.tasks.all()]\<close>: the whole list is
  built before \<open>all\<close> looks at it, so a task without status raises.\<close>

fun tasks_is_closed :: "task list \<Rightarrow> error + bool list" where
  "tasks_is_closed [] = Inr []"
| "tasks_is_closed (t # ts) =
     (case task_status t of
        None \<Rightarrow> Inl (AttributeError ''is_closed'')
      | Some s \<Rightarrow>
          (case tasks_is_closed ts of
             Inl e \<Rightarrow> Inl e
           | Inr bs \<Rightarrow> Inr (ts_is_closed s # bs)))"

definition calculate_userstory_is_closed :: "user_story \<Rightarrow> error + bool" where
  "calculate_userstory_is_closed user_story =
     (case status user_story of
        None \<Rightarrow> Inr False
      | Some st \<Rightarrow>
          if length (tasks user_story) = 0 then Inr (uss_is_closed st)
          else (case tasks_is_closed (tasks user_story) of
                  Inl e \<Rightarrow> Inl e
                | Inr bs \<Rightarrow> if list_all (\<lambda>b. b) bs then Inr True else Inr False))"

section \<open>change\_instance\_attr\<close>

text \<open>
  An instance is its attribute dictionary. The wrapped function receives the instance
  and its arguments, may change the instance, and either returns a value or raises; in
  both cases the instance is left as the function made it.
\<close>

type_synonym 'v obj = "string \<rightharpoonup> 'v"

definition getattribute :: "'v obj \<Rightarrow> string \<Rightarrow> error + 'v" where
  "getattribute inst name =
     (case inst name of None \<Rightarrow> Inl (AttributeError name) | Some v \<Rightarrow> Inr v)"

definition setattr :: "'v obj \<Rightarrow> string \<Rightarrow> 'v \<Rightarrow> 'v obj" where
  "setattr inst name v = inst(name \<mapsto> v)"

text \<open>
  The wrapper. \<open>old_value\<close> is \<open>Some\<close> exactly when \<open>changed\<close> is true. When the wrapped
  function raises, the exception leaves the wrapper at once and the second
  \<open>__setattr__\<close> does not run.
\<close>

definition change_instance_attr ::
  "string \<Rightarrow> 'v \<Rightarrow> ('v obj \<Rightarrow> 'a \<Rightarrow> (error + 'r) \<times> 'v obj) \<Rightarrow>
   'v obj \<Rightarrow> 'a \<Rightarrow> (error + 'r) \<times> 'v obj" where
  "change_instance_attr name new_value fn inst args =
     (let old_value = (case getattribute inst name of Inr v \<Rightarrow> Some v | Inl e \<Rightarrow> None);
          changed = (case getattribute inst name of Inr v \<Rightarrow> True | Inl e \<Rightarrow> False);
          inst1 = (if changed then setattr inst name new_value else inst)
      in case fn inst1 args of
           (Inl e, inst2) \<Rightarrow> (Inl e, inst2)
         | (Inr ret, inst2) \<Rightarrow>
             (case old_value of
                Some v \<Rightarrow> (Inr ret, setattr inst2 name v)
              | None \<Rightarrow> (Inr ret, inst2)))"

section \<open>Querysets and the filtered collection\<close>

text \<open>
  A queryset is read by the facet functions only through its compiled \<open>WHERE\<close> clause,
  which they splice into a query over \<open>userstories_userstory\<close> joined with
  \<open>projects_project\<close>: the clause is a predicate on such a joined row. \<open>qs_error\<close> is the
  error the data source raises when a query built from the queryset runs (a malformed
  predicate, a lost connection), \<open>None\<close> when it runs.
\<close>

record queryset =
  qs_where :: "userstory \<Rightarrow> project \<Rightarrow> bool"
  qs_error :: "error option"

text \<open>\<open>"userstories_userstory" INNER JOIN "projects_project" ON project_id = id\<close>\<close>

definition userstory_join_project :: "database \<Rightarrow> (userstory \<times> project) list" where
  "userstory_join_project db =
     concat (map (\<lambda>u. map (\<lambda>p. (u, p))
                         (filter (\<lambda>p. project_id u = p_id p) (projects_project db)))
                 (userstories_userstory db))"

text \<open>The rows of the join the \<open>WHERE\<close> clause keeps: the filtered collection.\<close>

definition filtered :: "database \<Rightarrow> queryset \<Rightarrow> userstory list" where
  "filtered db qs =
     map fst (filter (\<lambda>(u, p). qs_where qs u p) (userstory_join_project db))"

text \<open>\<open>SELECT count(*) FROM ... WHERE {where} AND cond\<close>\<close>

definition select_count :: "database \<Rightarrow> queryset \<Rightarrow> (userstory \<Rightarrow> bool) \<Rightarrow> nat" where
  "select_count db qs cond =
     length (filter (\<lambda>(u, p). qs_where qs u p \<and> cond u) (userstory_join_project db))"

text \<open>SQL equality: true only when both sides are not \<open>NULL\<close> and equal.\<close>

definition sql_eq :: "'a option \<Rightarrow> 'a option \<Rightarrow> bool" where
  "sql_eq a b = (case a of None \<Rightarrow> False
                 | Some x \<Rightarrow> (case b of None \<Rightarrow> False | Some y \<Rightarrow> x = y))"

text \<open>\<open>cursor.execute\<close> and \<open>fetchall\<close>: the rows, or the error of the data source.\<close>

definition cursor_execute :: "queryset \<Rightarrow> 'row list \<Rightarrow> error + 'row list" where
  "cursor_execute qs rows = (case qs_error qs of Some e \<Rightarrow> Inl e | None \<Rightarrow> Inr rows)"

section \<open>The status facet\<close>

record status_facet =
  sf_id :: int
  sf_name :: string
  sf_color :: string
  sf_order :: int
  sf_count :: nat

text \<open>
  The rows of the SQL query. SQL leaves the order of rows with equal \<open>order\<close> open; the
  model keeps them in table order.
\<close>

definition statuses_rows ::
  "database \<Rightarrow> project \<Rightarrow> queryset \<Rightarrow> (int \<times> string \<times> string \<times> int \<times> nat) list" where
  "statuses_rows db project qs =
     map (\<lambda>s. (uss_id s, uss_name s, uss_color s, uss_order s,
                select_count db qs (\<lambda>u. sql_eq (status_id u) (Some (uss_id s)))))
         (sort_key uss_order
            (filter (\<lambda>s. uss_project_id s = p_id project) (projects_userstorystatus db)))"

text \<open>\<open>gettext\<close> is the translation function \<open>_\<close> of the source.\<close>

definition get_userstories_statuses ::
  "database \<Rightarrow> (string \<Rightarrow> string) \<Rightarrow> project \<Rightarrow> queryset \<Rightarrow> error + status_facet list" where
  "get_userstories_statuses db gettext project qs =
     (case cursor_execute qs (statuses_rows db project qs) of
        Inl e \<Rightarrow> Inl e
      | Inr rows \<Rightarrow>
          Inr (sort_key sf_order
                 (map (\<lambda>(i, name, color, ord, cnt).
                         \<lparr>sf_id = i, sf_name = gettext name, sf_color = color,
                          sf_order = ord, sf_count = cnt\<rparr>) rows)))"

section \<open>The assignee and owner facets\<close>

record user_facet =
  uf_id :: "int option"
  uf_full_name :: string
  uf_count :: nat

text \<open>
  \<open>"projects_membership" INNER JOIN "users_user" ON user_id = id\<close>, restricted to the
  memberships of the project whose \<open>user_id\<close> is not \<open>NULL\<close>.
\<close>

definition membership_join_user :: "database \<Rightarrow> project \<Rightarrow> (membership \<times> user) list" where
  "membership_join_user db project =
     concat (map (\<lambda>m. map (\<lambda>u. (m, u))
                         (filter (\<lambda>u. sql_eq (mem_user_id m) (Some (user_id u))) (users_user db)))
                 (filter (\<lambda>m. mem_project_id m = p_id project \<and> mem_user_id m \<noteq> None)
                         (projects_membership db)))"

text \<open>
  The two \<open>SELECT\<close>s and their \<open>UNION\<close>, which drops duplicate rows. SQL leaves the order
  of the rows open; the model keeps the first occurrence of each row, in table order.
\<close>

definition assigned_to_rows ::
  "database \<Rightarrow> project \<Rightarrow> queryset \<Rightarrow> (int option \<times> string option \<times> nat) list" where
  "assigned_to_rows db project qs =
     remdups
       ((None, None, select_count db qs (\<lambda>u. assigned_to_id u = None))
        # map (\<lambda>(m, u). (Some (user_id u), Some (full_name u),
                          select_count db qs (\<lambda>us. sql_eq (assigned_to_id us) (mem_user_id m))))
              (membership_join_user db project))"

text \<open>\<open>full_name or ""\<close>\<close>

definition or_empty :: "string option \<Rightarrow> string" where
  "or_empty s = (case s of None \<Rightarrow> [] | Some t \<Rightarrow> (if t = [] then [] else t))"

definition get_userstories_assigned_to ::
  "database \<Rightarrow> project \<Rightarrow> queryset \<Rightarrow> error + user_facet list" where
  "get_userstories_assigned_to db project qs =
     (case cursor_execute qs (assigned_to_rows db project qs) of
        Inl e \<Rightarrow> Inl e
      | Inr rows \<Rightarrow>
          Inr (sort_key uf_full_name
                 (map (\<lambda>(i, fname, cnt).
                         \<lparr>uf_id = i, uf_full_name = or_empty fname, uf_count = cnt\<rparr>) rows)))"

text \<open>
  \<open>"projects_membership" RIGHT OUTER JOIN "users_user" ON user_id = id\<close>: every user,
  once per membership row of that user, and once with the membership columns \<open>NULL\<close>
  when the user has no membership row.
\<close>

definition membership_right_join_user :: "database \<Rightarrow> (membership option \<times> user) list" where
  "membership_right_join_user db =
     concat (map (\<lambda>u.
                    (case filter (\<lambda>m. sql_eq (mem_user_id m) (Some (user_id u)))
                                 (projects_membership db) of
                       [] \<Rightarrow> [(None, u)]
                     | ms \<Rightarrow> map (\<lambda>m. (Some m, u)) ms))
                 (users_user db))"

text \<open>
  The membership columns of a joined row, \<open>NULL\<close> when the row has no membership.
\<close>

definition joined_user_id :: "membership option \<Rightarrow> int option" where
  "joined_user_id mo = (case mo of None \<Rightarrow> None | Some m \<Rightarrow> mem_user_id m)"

definition joined_project_id :: "membership option \<Rightarrow> int option" where
  "joined_project_id mo = (case mo of None \<Rightarrow> None | Some m \<Rightarrow> Some (mem_project_id m))"

definition owners_rows ::
  "database \<Rightarrow> project \<Rightarrow> queryset \<Rightarrow> (int \<times> string \<times> nat) list" where
  "owners_rows db project qs =
     map (\<lambda>(mo, u). (user_id u, full_name u,
                      select_count db qs (\<lambda>us. sql_eq (owner_id us) (joined_user_id mo))))
         (filter (\<lambda>(mo, u). (sql_eq (joined_project_id mo) (Some (p_id project))
                              \<and> joined_user_id mo \<noteq> None)
                             \<or> is_system u)
                 (membership_right_join_user db))"

fun owners_result :: "(int \<times> string \<times> nat) list \<Rightarrow> user_facet list" where
  "owners_result [] = []"
| "owners_result ((i, fname, cnt) # rows) =
     (if cnt > 0
      then \<lparr>uf_id = Some i, uf_full_name = fname, uf_count = cnt\<rparr> # owners_result rows
      else owners_result rows)"

definition get_userstories_owners ::
  "database \<Rightarrow> project \<Rightarrow> queryset \<Rightarrow> error + user_facet list" where
  "get_userstories_owners db project qs =
     (case cursor_execute qs (owners_rows db project qs) of
        Inl e \<Rightarrow> Inl e
      | Inr rows \<Rightarrow> Inr (sort_key uf_full_name (owners_result rows)))"

text \<open>
  The members of a project: the users that a membership row of the project points to.
  This names what the properties below speak about; the functions do not use it.
\<close>

definition project_members :: "database \<Rightarrow> project \<Rightarrow> user list" where
  "project_members db project =
     filter (\<lambda>u. list_ex (\<lambda>m. mem_project_id m = p_id project \<and> mem_user_id m = Some (user_id u))
                          (projects_membership db))
            (users_user db)"

section \<open>The tag facet\<close>

record tag_facet =
  tf_name :: string
  tf_count :: nat

text \<open>The loop over \<open>queryset.values_list("tags", flat=True)\<close>, \<open>acc\<close> being \<open>tags\<close>.\<close>

fun collect_tags :: "string list option list \<Rightarrow> string list \<Rightarrow> string list" where
  "collect_tags [] acc = acc"
| "collect_tags (None # ts) acc = collect_tags ts acc"
| "collect_tags (Some t_list # ts) acc = collect_tags ts (acc @ t_list)"

text \<open>
  \<open>set(tags)\<close> is iterated in an order Python leaves open; the model takes the distinct
  tags in the order \<open>remdups\<close> gives. The names are distinct, so the sorted result does
  not depend on that order.
\<close>

definition tags_result :: "string list \<Rightarrow> tag_facet list" where
  "tags_result tgs =
     sort_key tf_name (map (\<lambda>e. \<lparr>tf_name = e, tf_count = count_list tgs e\<rparr>) (remdups tgs))"

definition get_userstories_tags :: "database \<Rightarrow> queryset \<Rightarrow> error + tag_facet list" where
  "get_userstories_tags db qs =
     (case cursor_execute qs (map tags (filtered db qs)) of
        Inl e \<Rightarrow> Inl e
      | Inr t_lists \<Rightarrow> Inr (tags_result (collect_tags t_lists [])))"

text \<open>
  The tags of an item as the loop reads them: none when the column is \<open>NULL\<close>. This
  names the quantity the properties below speak about; the functions do not use it.
\<close>

definition item_tags :: "userstory \<Rightarrow> string list" where
  "item_tags u = (case tags u of None \<Rightarrow> [] | Some t_list \<Rightarrow> t_list)"

section \<open>get\_userstories\_filters\_data\<close>

datatype facets =
  StatusFacets "status_facet list"
| UserFacets "user_facet list"
| TagFacets "tag_facet list"

text \<open>\<open>querysets[key]\<close>\<close>

definition getitem :: "(string \<rightharpoonup> queryset) \<Rightarrow> string \<Rightarrow> error + queryset" where
  "getitem querysets k = (case querysets k of None \<Rightarrow> Inl (KeyError k) | Some q \<Rightarrow> Inr q)"

text \<open>
  The ordered dictionary is the list of its items. Python builds the four items from
  left to right, so the first lookup or query that raises decides the error:
  \<open>bind_error\<close> passes a result on and stops at an error.
\<close>

definition bind_error :: "error + 'a \<Rightarrow> ('a \<Rightarrow> error + 'b) \<Rightarrow> error + 'b" where
  "bind_error r f = (case r of Inl e \<Rightarrow> Inl e | Inr x \<Rightarrow> f x)"

definition get_userstories_filters_data ::
  "database \<Rightarrow> (string \<Rightarrow> string) \<Rightarrow> project \<Rightarrow> (string \<rightharpoonup> queryset) \<Rightarrow>
   error + (string \<times> facets) list" where
  "get_userstories_filters_data db gettext project querysets =
     bind_error (getitem querysets ''statuses'') (\<lambda>q1.
     bind_error (get_userstories_statuses db gettext project q1) (\<lambda>r1.
     bind_error (getitem querysets ''assigned_to'') (\<lambda>q2.
     bind_error (get_userstories_assigned_to db project q2) (\<lambda>r2.
     bind_error (getitem querysets ''owners'') (\<lambda>q3.
     bind_error (get_userstories_owners db project q3) (\<lambda>r3.
     bind_error (getitem querysets ''tags'') (\<lambda>q4.
     bind_error (get_userstories_tags db q4) (\<lambda>r4.
       Inr [(''statuses'', StatusFacets r1), (''assigned_to'', UserFacets r2),
            (''owners'', UserFacets r3), (''tags'', TagFacets r4)]))))))))"


section \<open>Example data\<close>

text \<open>
  A store with two projects, used to run the functions on a concrete input. Project 1
  has three statuses (one of them unused), the members Alice and Bob and a pending
  invitation; user 9 is a system account without membership that owns a story of
  project 1. Story 4 belongs to project 2.
\<close>

definition demo_project :: project where
  "demo_project = \<lparr>p_id = 1\<rparr>"

definition demo_db :: database where
  "demo_db = \<lparr>
     userstories_userstory =
       [\<lparr>us_id = 1, project_id = 1, status_id = Some 1, assigned_to_id = None,
         owner_id = Some 1, tags = Some [''ui'', ''bug'']\<rparr>,
        \<lparr>us_id = 2, project_id = 1, status_id = Some 1, assigned_to_id = Some 1,
         owner_id = Some 1, tags = Some [''bug'']\<rparr>,
        \<lparr>us_id = 3, project_id = 1, status_id = Some 2, assigned_to_id = Some 1,
         owner_id = Some 9, tags = None\<rparr>,
        \<lparr>us_id = 4, project_id = 2, status_id = Some 3, assigned_to_id = None,
         owner_id = Some 2, tags = Some []\<rparr>],
     projects_project = [\<lparr>p_id = 1\<rparr>, \<lparr>p_id = 2\<rparr>],
     projects_userstorystatus =
       [\<lparr>uss_id = 2, uss_name = ''Done'', uss_color = ''#0f0'', uss_order = 2,
         uss_is_closed = True, uss_project_id = 1\<rparr>,
        \<lparr>uss_id = 1, uss_name = ''New'', uss_color = ''#999'', uss_order = 1,
         uss_is_closed = False, uss_project_id = 1\<rparr>,
        \<lparr>uss_id = 3, uss_name = ''New'', uss_color = ''#999'', uss_order = 1,
         uss_is_closed = False, uss_project_id = 2\<rparr>,
        \<lparr>uss_id = 4, uss_name = ''Ready'', uss_color = ''#00f'', uss_order = 3,
         uss_is_closed = False, uss_project_id = 1\<rparr>],
     projects_membership =
       [\<lparr>mem_project_id = 1, mem_user_id = Some 2\<rparr>,
        \<lparr>mem_project_id = 1, mem_user_id = Some 1\<rparr>,
        \<lparr>mem_project_id = 1, mem_user_id = None\<rparr>,
        \<lparr>mem_project_id = 2, mem_user_id = Some 2\<rparr>],
     users_user =
       [\<lparr>user_id = 1, full_name = ''Alice'', is_system = False\<rparr>,
        \<lparr>user_id = 2, full_name = ''Bob'', is_system = False\<rparr>,
        \<lparr>user_id = 9, full_name = ''Github'', is_system = True\<rparr>]\<rparr>"

definition in_project_qs :: queryset where
  "in_project_qs = \<lparr>qs_where = (\<lambda>u p. p_id p = 1), qs_error = None\<rparr>"

definition all_qs :: queryset where
  "all_qs = \<lparr>qs_where = (\<lambda>u p. True), qs_error = None\<rparr>"

text \<open>A store whose only story carries the same tag twice.\<close>

definition dup_db :: database where
  "dup_db = \<lparr>
     userstories_userstory =
       [\<lparr>us_id = 1, project_id = 1, status_id = None, assigned_to_id = None,
         owner_id = None, tags = Some [''bug'', ''bug'']\<rparr>],
     projects_project = [\<lparr>p_id = 1\<rparr>],
     projects_userstorystatus = [],
     projects_membership = [],
     users_user = []\<rparr>"

text \<open>
  A queryset that keeps no item, one whose query the data source refuses, and the
  dictionaries of four querysets passed to \<open>get_userstories_filters_data\<close>.
\<close>

definition none_qs :: queryset where
  "none_qs = \<lparr>qs_where = (\<lambda>u p. False), qs_error = None\<rparr>"

definition failing_qs :: queryset where
  "failing_qs = \<lparr>qs_where = (\<lambda>u p. p_id p = 1), qs_error = Some DatabaseError\<rparr>"


definition none_querysets :: "string \<rightharpoonup> queryset" where
  "none_querysets = [''statuses'' \<mapsto> none_qs, ''assigned_to'' \<mapsto> none_qs,
                     ''owners'' \<mapsto> none_qs, ''tags'' \<mapsto> none_qs]"

definition broken_querysets :: "string \<rightharpoonup> queryset" where
  "broken_querysets = [''statuses'' \<mapsto> in_project_qs, ''assigned_to'' \<mapsto> in_project_qs,
                       ''owners'' \<mapsto> failing_qs, ''tags'' \<mapsto> in_project_qs]"


section \<open>Auxiliary facts about lists and counts\<close>

lemma length_filter_fst:
  "length (filter (\<lambda>(u, p). W u p \<and> c u) xs) =
   length (filter c (map fst (filter (\<lambda>(u, p). W u p) xs)))"
  by (induction xs) (simp_all add: case_prod_beta)

lemma select_count_filtered:
  "select_count db qs cond = length (filter cond (filtered db qs))"
  unfolding select_count_def filtered_def by (rule length_filter_fst)

lemma filter_key_distinct:
  "distinct (map f xs) \<Longrightarrow> x \<in> set xs \<Longrightarrow> filter (\<lambda>y. f y = f x) xs = [x]"
proof (induction xs)
  case Nil
  then show ?case by simp
next
  case (Cons a xs)
  have na: "f a \<notin> f ` set xs" and dx: "distinct (map f xs)" using Cons.prems(1) by simp_all
  show ?case
  proof (cases "x = a")
    case True
    have na': "\<And>y. y \<in> set xs \<Longrightarrow> f y \<noteq> f a" using na by (metis imageI)
    have "filter (\<lambda>y. f y = f a) xs = []"
      by (simp add: filter_empty_conv na')
    then show ?thesis using True by simp
  next
    case False
    then have xin: "x \<in> set xs" using Cons.prems(2) by simp
    then have "f a \<noteq> f x" using na by (metis imageI)
    then show ?thesis using Cons.IH[OF dx xin] by simp
  qed
qed

lemma remdups_all_equal:
  "xs \<noteq> [] \<Longrightarrow> (\<And>y. y \<in> set xs \<Longrightarrow> y = x) \<Longrightarrow> remdups xs = [x]"
proof (induction xs)
  case Nil
  then show ?case by simp
next
  case (Cons a xs)
  have ax: "a = x" using Cons.prems(2) by simp
  show ?case
  proof (cases "xs = []")
    case True
    then show ?thesis using ax by simp
  next
    case False
    have "remdups xs = [x]" using Cons.IH[OF False] Cons.prems(2) by simp
    moreover have "a \<in> set xs" using False Cons.prems(2) ax
      by (metis last_in_set list.set_intros(2))
    ultimately show ?thesis by simp
  qed
qed

lemma collect_tags_eq:
  "collect_tags ts acc = acc @ concat (map (\<lambda>t. case t of None \<Rightarrow> [] | Some l \<Rightarrow> l) ts)"
  by (induction ts acc rule: collect_tags.induct) simp_all

lemma count_list_distinct_mem:
  "distinct xs \<Longrightarrow> t \<in> set xs \<Longrightarrow> count_list xs t = 1"
  by (induction xs) (auto simp: count_list_0_iff)

lemma count_list_concat_distinct:
  "(\<And>l. l \<in> set ls \<Longrightarrow> distinct l) \<Longrightarrow>
   count_list (concat ls) t = length (filter (\<lambda>l. t \<in> set l) ls)"
proof (induction ls)
  case Nil
  show ?case by simp
next
  case (Cons l ls)
  have d: "distinct l" using Cons.prems by simp
  have ih: "count_list (concat ls) t = length (filter (\<lambda>l. t \<in> set l) ls)"
    using Cons by simp
  show ?case
  proof (cases "t \<in> set l")
    case True
    then show ?thesis using ih count_list_distinct_mem[OF d True] by simp
  next
    case False
    then show ?thesis using ih by (simp add: count_list_0_iff)
  qed
qed

lemma sql_eq_Some: "sql_eq a (Some y) = (a = Some y)"
  by (cases a) (simp_all add: sql_eq_def)

lemma tags_result_one:
  assumes "t \<in> set tgs"
  shows "filter (\<lambda>r. tf_name r = t) (tags_result tgs) = [\<lparr>tf_name = t, tf_count = count_list tgs t\<rparr>]"
proof -
  have "filter (\<lambda>e. e = t) (remdups tgs) = [t]"
    using filter_key_distinct[of "\<lambda>e. e" "remdups tgs" t] assms by simp
  then show ?thesis
    by (simp add: tags_result_def filter_sort filter_map o_def)
qed

lemma tags_result_names: "tf_name ` set (tags_result tgs) = set tgs"
  by (simp add: tags_result_def image_image)

lemma get_userstories_tags_eq:
  "qs_error qs = None \<Longrightarrow>
   get_userstories_tags db qs = Inr (tags_result (concat (map item_tags (filtered db qs))))"
  by (simp add: get_userstories_tags_def cursor_execute_def collect_tags_eq o_def item_tags_def[abs_def])

lemma membership_join_user_iff:
  "(m, u) \<in> set (membership_join_user db project) \<longleftrightarrow>
   m \<in> set (projects_membership db) \<and> mem_project_id m = p_id project \<and>
   mem_user_id m = Some (user_id u) \<and> u \<in> set (users_user db)"
  by (auto simp: membership_join_user_def sql_eq_Some)

lemma project_members_iff:
  "u \<in> set (project_members db project) \<longleftrightarrow>
   (\<exists>m. (m, u) \<in> set (membership_join_user db project))"
  by (auto simp: project_members_def membership_join_user_iff list_ex_iff)

lemma user_id_unique:
  "distinct (map user_id (users_user db)) \<Longrightarrow> u \<in> set (users_user db) \<Longrightarrow>
   v \<in> set (users_user db) \<Longrightarrow> user_id u = user_id v \<Longrightarrow> u = v"
  by (meson distinct_map inj_onD)

lemma or_empty_Some: "or_empty (Some t) = t"
  by (simp add: or_empty_def)

lemma assigned_to_row_member:
  assumes "(m, u) \<in> set (membership_join_user db project)"
  shows "(\<lambda>(m, u). (Some (user_id u), Some (full_name u),
             select_count db qs (\<lambda>us. sql_eq (assigned_to_id us) (mem_user_id m)))) (m, u) =
         (Some (user_id u), Some (full_name u),
          length (filter (\<lambda>us. assigned_to_id us = Some (user_id u)) (filtered db qs)))"
  using assms by (simp add: membership_join_user_iff select_count_filtered sql_eq_Some)

lemma getitem_bind:
  "bind_error (getitem querysets k) f =
     (case querysets k of None \<Rightarrow> Inl (KeyError k) | Some q \<Rightarrow> f q)"
  by (cases "querysets k") (simp_all add: bind_error_def getitem_def)

lemma owners_result_filter:
  "owners_result rows =
     map (\<lambda>(i, fname, cnt). \<lparr>uf_id = Some i, uf_full_name = fname, uf_count = cnt\<rparr>)
         (filter (\<lambda>(i, fname, cnt). cnt > 0) rows)"
  by (induction rows rule: owners_result.induct) simp_all

lemma select_count_empty: "filtered db qs = [] \<Longrightarrow> select_count db qs c = 0"
  by (simp add: select_count_filtered)

lemma statuses_Inr:
  "get_userstories_statuses db gettext project qs = Inr r \<longleftrightarrow>
   qs_error qs = None \<and>
   r = sort_key sf_order
         (map (\<lambda>(i, name, color, ord, cnt).
                 \<lparr>sf_id = i, sf_name = gettext name, sf_color = color,
                  sf_order = ord, sf_count = cnt\<rparr>) (statuses_rows db project qs))"
  by (cases "qs_error qs")
     (auto simp: get_userstories_statuses_def cursor_execute_def)

lemma assigned_to_Inr:
  "get_userstories_assigned_to db project qs = Inr r \<longleftrightarrow>
   qs_error qs = None \<and>
   r = sort_key uf_full_name
         (map (\<lambda>(i, fname, cnt).
                 \<lparr>uf_id = i, uf_full_name = or_empty fname, uf_count = cnt\<rparr>)
              (assigned_to_rows db project qs))"
  by (cases "qs_error qs")
     (auto simp: get_userstories_assigned_to_def cursor_execute_def)

lemma owners_Inr:
  "get_userstories_owners db project qs = Inr r \<longleftrightarrow>
   qs_error qs = None \<and>
   r = sort_key uf_full_name (owners_result (owners_rows db project qs))"
  by (cases "qs_error qs")
     (auto simp: get_userstories_owners_def cursor_execute_def)

lemma tags_Inr:
  "get_userstories_tags db qs = Inr r \<longleftrightarrow>
   qs_error qs = None \<and>
   r = tags_result (collect_tags (map tags (filtered db qs)) [])"
  by (cases "qs_error qs")
     (auto simp: get_userstories_tags_def cursor_execute_def)

lemma statuses_empty:
  assumes "filtered db qs = []" and "get_userstories_statuses db gettext project qs = Inr r"
  shows "list_all (\<lambda>x. sf_count x = 0) r"
proof -
  have "list_all (\<lambda>y. snd (snd (snd (snd y))) = 0) (statuses_rows db project qs)"
    by (simp add: statuses_rows_def list_all_iff select_count_empty[OF assms(1)])
  then show ?thesis
    using assms(2) unfolding statuses_Inr
    by (simp add: list_all_iff case_prod_beta)
qed

lemma assigned_to_empty:
  assumes "filtered db qs = []" and "get_userstories_assigned_to db project qs = Inr r"
  shows "r \<noteq> [] \<and> list_all (\<lambda>x. uf_count x = 0) r"
proof -
  have rows: "list_all (\<lambda>y. snd (snd y) = 0) (assigned_to_rows db project qs)"
    unfolding assigned_to_rows_def list_all_iff set_remdups
    by (simp add: select_count_empty[OF assms(1)] case_prod_beta)
  have "set (assigned_to_rows db project qs) \<noteq> {}"
    unfolding assigned_to_rows_def set_remdups by simp
  then have ne: "assigned_to_rows db project qs \<noteq> []"
    by (simp del: set_empty2 add: set_empty2[symmetric])
  have r: "r = sort_key uf_full_name
                 (map (\<lambda>(i, fname, cnt).
                         \<lparr>uf_id = i, uf_full_name = or_empty fname, uf_count = cnt\<rparr>)
                      (assigned_to_rows db project qs))"
    using assms(2) unfolding assigned_to_Inr by simp
  have "length r = length (assigned_to_rows db project qs)"
    unfolding r by simp
  then have "r \<noteq> []" using ne by (metis length_0_conv)
  moreover have "list_all (\<lambda>x. uf_count x = 0) r"
    using rows unfolding r by (simp add: list_all_iff case_prod_beta)
  ultimately show ?thesis by blast
qed

lemma owners_empty:
  assumes "filtered db qs = []" and "get_userstories_owners db project qs = Inr r"
  shows "r = []"
proof -
  have "list_all (\<lambda>y. snd (snd y) = 0) (owners_rows db project qs)"
    by (simp add: owners_rows_def list_all_iff select_count_empty[OF assms(1)] case_prod_beta)
  then have "filter (\<lambda>(i, fname, cnt). cnt > 0) (owners_rows db project qs) = []"
    by (simp add: filter_empty_conv list_all_iff case_prod_beta)
  then show ?thesis
    using assms(2) unfolding owners_Inr by (simp add: owners_result_filter)
qed

lemma tags_empty:
  assumes "filtered db qs = []" and "get_userstories_tags db qs = Inr r"
  shows "r = []"
  using assms(2) unfolding tags_Inr by (simp add: assms(1) tags_result_def)

lemma filters_data_bind:
  assumes "querysets ''statuses'' = Some q1" and "querysets ''assigned_to'' = Some q2"
    and "querysets ''owners'' = Some q3" and "querysets ''tags'' = Some q4"
  shows "get_userstories_filters_data db gettext project querysets =
     bind_error (get_userstories_statuses db gettext project q1) (\<lambda>r1.
     bind_error (get_userstories_assigned_to db project q2) (\<lambda>r2.
     bind_error (get_userstories_owners db project q3) (\<lambda>r3.
     bind_error (get_userstories_tags db q4) (\<lambda>r4.
       Inr [(''statuses'', StatusFacets r1), (''assigned_to'', UserFacets r2),
            (''owners'', UserFacets r3), (''tags'', TagFacets r4)]))))"
  by (simp add: get_userstories_filters_data_def getitem_bind assms)

lemma bind_error_Inl: "bind_error (Inl e) f = Inl e"
  by (simp add: bind_error_def)

lemma bind_error_Inr: "bind_error (Inr x) f = f x"
  by (simp add: bind_error_def)









section \<open>The example data, evaluated\<close>

lemma demo_join:
  "userstory_join_project demo_db =
     [(userstories_userstory demo_db ! 0, \<lparr>p_id = 1\<rparr>),
      (userstories_userstory demo_db ! 1, \<lparr>p_id = 1\<rparr>),
      (userstories_userstory demo_db ! 2, \<lparr>p_id = 1\<rparr>),
      (userstories_userstory demo_db ! 3, \<lparr>p_id = 2\<rparr>)]"
  by (simp add: userstory_join_project_def demo_db_def)

lemma demo_statuses:
  "get_userstories_statuses demo_db (\<lambda>s. s) demo_project in_project_qs =
     Inr [\<lparr>sf_id = 1, sf_name = ''New'', sf_color = ''#999'', sf_order = 1, sf_count = 2\<rparr>,
          \<lparr>sf_id = 2, sf_name = ''Done'', sf_color = ''#0f0'', sf_order = 2, sf_count = 1\<rparr>,
          \<lparr>sf_id = 4, sf_name = ''Ready'', sf_color = ''#00f'', sf_order = 3, sf_count = 0\<rparr>]"
  by (simp add: get_userstories_statuses_def cursor_execute_def statuses_rows_def
      select_count_def demo_join sql_eq_def in_project_qs_def demo_project_def)
     (simp add: demo_db_def)

lemma demo_filtered:
  "filtered demo_db in_project_qs = take 3 (userstories_userstory demo_db)"
  by (simp add: filtered_def demo_join in_project_qs_def) (simp add: demo_db_def)

lemma dup_filtered: "filtered dup_db all_qs = userstories_userstory dup_db"
  by (simp add: filtered_def userstory_join_project_def all_qs_def dup_db_def)


lemma demo_members:
  "membership_join_user demo_db demo_project =
     [(\<lparr>mem_project_id = 1, mem_user_id = Some 2\<rparr>,
       \<lparr>user_id = 2, full_name = ''Bob'', is_system = False\<rparr>),
      (\<lparr>mem_project_id = 1, mem_user_id = Some 1\<rparr>,
       \<lparr>user_id = 1, full_name = ''Alice'', is_system = False\<rparr>)]"
  by (simp add: membership_join_user_def demo_db_def demo_project_def sql_eq_def)

lemma demo_assigned_to:
  "get_userstories_assigned_to demo_db demo_project in_project_qs =
     Inr [\<lparr>uf_id = None, uf_full_name = [], uf_count = 1\<rparr>,
          \<lparr>uf_id = Some 1, uf_full_name = ''Alice'', uf_count = 2\<rparr>,
          \<lparr>uf_id = Some 2, uf_full_name = ''Bob'', uf_count = 0\<rparr>]"
  by (simp add: get_userstories_assigned_to_def cursor_execute_def assigned_to_rows_def
      select_count_filtered demo_filtered demo_members sql_eq_def)
     (simp add: in_project_qs_def demo_db_def or_empty_def)

lemma demo_right_join:
  "membership_right_join_user demo_db =
     [(Some \<lparr>mem_project_id = 1, mem_user_id = Some 1\<rparr>,
       \<lparr>user_id = 1, full_name = ''Alice'', is_system = False\<rparr>),
      (Some \<lparr>mem_project_id = 1, mem_user_id = Some 2\<rparr>,
       \<lparr>user_id = 2, full_name = ''Bob'', is_system = False\<rparr>),
      (Some \<lparr>mem_project_id = 2, mem_user_id = Some 2\<rparr>,
       \<lparr>user_id = 2, full_name = ''Bob'', is_system = False\<rparr>),
      (None, \<lparr>user_id = 9, full_name = ''Github'', is_system = True\<rparr>)]"
  by (simp add: membership_right_join_user_def demo_db_def sql_eq_def)

lemma demo_owners_rows:
  "owners_rows demo_db demo_project in_project_qs =
     [(1, ''Alice'', 2), (2, ''Bob'', 0), (9, ''Github'', 0)]"
  by (simp add: owners_rows_def demo_right_join joined_project_id_def joined_user_id_def
      sql_eq_def demo_project_def select_count_filtered demo_filtered)
     (simp add: demo_db_def)

lemma demo_owners:
  "get_userstories_owners demo_db demo_project in_project_qs =
     Inr [\<lparr>uf_id = Some 1, uf_full_name = ''Alice'', uf_count = 2\<rparr>]"
  by (simp add: get_userstories_owners_def cursor_execute_def demo_owners_rows)
     (simp add: in_project_qs_def)

lemma demo_tags:
  "get_userstories_tags demo_db in_project_qs =
     Inr [\<lparr>tf_name = ''bug'', tf_count = 2\<rparr>, \<lparr>tf_name = ''ui'', tf_count = 1\<rparr>]"
  by (simp add: get_userstories_tags_def cursor_execute_def demo_filtered)
     (simp add: in_project_qs_def demo_db_def tags_result_def)

lemma none_filtered: "filtered demo_db none_qs = []"
  by (simp add: filtered_def demo_join none_qs_def)

lemma none_statuses:
  "get_userstories_statuses demo_db (\<lambda>s. s) demo_project none_qs =
     Inr [\<lparr>sf_id = 1, sf_name = ''New'', sf_color = ''#999'', sf_order = 1, sf_count = 0\<rparr>,
          \<lparr>sf_id = 2, sf_name = ''Done'', sf_color = ''#0f0'', sf_order = 2, sf_count = 0\<rparr>,
          \<lparr>sf_id = 4, sf_name = ''Ready'', sf_color = ''#00f'', sf_order = 3, sf_count = 0\<rparr>]"
  by (simp add: get_userstories_statuses_def cursor_execute_def statuses_rows_def
      select_count_filtered none_filtered)
     (simp add: none_qs_def demo_db_def demo_project_def)

lemma none_assigned_to:
  "get_userstories_assigned_to demo_db demo_project none_qs =
     Inr [\<lparr>uf_id = None, uf_full_name = [], uf_count = 0\<rparr>,
          \<lparr>uf_id = Some 1, uf_full_name = ''Alice'', uf_count = 0\<rparr>,
          \<lparr>uf_id = Some 2, uf_full_name = ''Bob'', uf_count = 0\<rparr>]"
  by (simp add: get_userstories_assigned_to_def cursor_execute_def assigned_to_rows_def
      select_count_filtered none_filtered demo_members)
     (simp add: none_qs_def or_empty_def)

lemma none_owners: "get_userstories_owners demo_db demo_project none_qs = Inr []"
  using owners_empty[OF none_filtered, of demo_project]
  by (simp add: owners_Inr none_qs_def)

lemma none_tags: "get_userstories_tags demo_db none_qs = Inr []"
  using tags_empty[OF none_filtered]
  by (simp add: tags_Inr none_qs_def)

lemma failing_owners:
  "get_userstories_owners demo_db demo_project failing_qs = Inl DatabaseError"
  by (simp add: get_userstories_owners_def cursor_execute_def failing_qs_def)






section \<open>Properties of calculate\_userstory\_is\_closed\<close>

text \<open>
  C10. A user story whose status is \<open>None\<close> is not closed: the function returns \<open>False\<close>
  (and raises nothing), whatever tasks the story has, also when every task is closed
  and when a task has no status.
\<close>

theorem calculate_userstory_is_closed_no_status:
  "status user_story = None \<Longrightarrow> calculate_userstory_is_closed user_story = Inr False"
  by (simp add: calculate_userstory_is_closed_def)

theorem calculate_userstory_is_closed_no_status_witness:
  "status \<lparr>status = None, tasks = [\<lparr>task_status = Some \<lparr>ts_is_closed = True\<rparr>\<rparr>,
                                     \<lparr>task_status = Some \<lparr>ts_is_closed = True\<rparr>\<rparr>]\<rparr> = None
   \<and> calculate_userstory_is_closed
        \<lparr>status = None, tasks = [\<lparr>task_status = Some \<lparr>ts_is_closed = True\<rparr>\<rparr>,
                                 \<lparr>task_status = Some \<lparr>ts_is_closed = True\<rparr>\<rparr>]\<rparr> = Inr False"
  using calculate_userstory_is_closed_no_status
    [of "\<lparr>status = None, tasks = [\<lparr>task_status = Some \<lparr>ts_is_closed = True\<rparr>\<rparr>,
                                  \<lparr>task_status = Some \<lparr>ts_is_closed = True\<rparr>\<rparr>]\<rparr>"]
  by simp

section \<open>Properties of the status facet\<close>

lemma statuses_rows_facets:
  "map (\<lambda>(i, name, color, ord, cnt).
          \<lparr>sf_id = i, sf_name = gettext name, sf_color = color, sf_order = ord, sf_count = cnt\<rparr>)
       (statuses_rows db project qs) =
   map (\<lambda>s. \<lparr>sf_id = uss_id s, sf_name = gettext (uss_name s), sf_color = uss_color s,
               sf_order = uss_order s,
               sf_count = length (filter (\<lambda>u. status_id u = Some (uss_id s)) (filtered db qs))\<rparr>)
       (sort_key uss_order
          (filter (\<lambda>s. uss_project_id s = p_id project) (projects_userstorystatus db)))"
  by (simp add: statuses_rows_def select_count_filtered sql_eq_Some)

text \<open>
  C1. When the query runs, the status facet has exactly one record for every status of
  the project, also for a status no item has, and no other record; the record carries
  the status's id, translated name, color and order, and its count is the number of
  items of the filtered collection whose status is that status. Status ids are the
  primary key of their table, hence distinct.
\<close>

theorem statuses_facet_complete:
  assumes "distinct (map uss_id (projects_userstorystatus db))" and "qs_error qs = None"
  shows "\<exists>facet. get_userstories_statuses db gettext project qs = Inr facet \<and>
     length facet = length (filter (\<lambda>s. uss_project_id s = p_id project)
                                   (projects_userstorystatus db)) \<and>
     (\<forall>s \<in> set (projects_userstorystatus db). uss_project_id s = p_id project \<longrightarrow>
        filter (\<lambda>r. sf_id r = uss_id s) facet =
          [\<lparr>sf_id = uss_id s, sf_name = gettext (uss_name s), sf_color = uss_color s,
            sf_order = uss_order s,
            sf_count = length (filter (\<lambda>u. status_id u = Some (uss_id s)) (filtered db qs))\<rparr>])"
proof -
  define S where "S = filter (\<lambda>s. uss_project_id s = p_id project) (projects_userstorystatus db)"
  define F :: "userstorystatus \<Rightarrow> status_facet" where "F = (\<lambda>s. \<lparr>sf_id = uss_id s, sf_name = gettext (uss_name s),
      sf_color = uss_color s, sf_order = uss_order s,
      sf_count = length (filter (\<lambda>u. status_id u = Some (uss_id s)) (filtered db qs))\<rparr>)"
  define facet where "facet = sort_key sf_order (map F (sort_key uss_order S))"
  have res: "get_userstories_statuses db gettext project qs = Inr facet"
    using assms(2) statuses_rows_facets[of gettext db project qs]
    by (simp add: get_userstories_statuses_def cursor_execute_def facet_def F_def S_def)
  have len: "length facet = length S" by (simp add: facet_def)
  have dS: "distinct (map uss_id S)" unfolding S_def using assms(1) by (rule distinct_map_filter)
  have one: "filter (\<lambda>r. sf_id r = uss_id s) facet = [F s]" if "s \<in> set S" for s
  proof -
    have "filter (\<lambda>r. sf_id r = uss_id s) facet =
          sort_key sf_order (map F (sort_key uss_order (filter (\<lambda>y. uss_id y = uss_id s) S)))"
      by (simp add: facet_def filter_sort filter_map o_def F_def)
    also have "\<dots> = [F s]" using filter_key_distinct[OF dS that] by simp
    finally show ?thesis .
  qed
  show ?thesis
    using res len one unfolding S_def F_def by auto
qed

theorem statuses_facet_complete_witness:
  "distinct (map uss_id (projects_userstorystatus demo_db)) \<and> qs_error in_project_qs = None \<and>
   (\<exists>facet. get_userstories_statuses demo_db (\<lambda>s. s) demo_project in_project_qs = Inr facet \<and>
      length facet = 3 \<and>
      filter (\<lambda>r. sf_id r = 1) facet =
        [\<lparr>sf_id = 1, sf_name = ''New'', sf_color = ''#999'', sf_order = 1, sf_count = 2\<rparr>] \<and>
      filter (\<lambda>r. sf_id r = 4) facet =
        [\<lparr>sf_id = 4, sf_name = ''Ready'', sf_color = ''#00f'', sf_order = 3, sf_count = 0\<rparr>])"
proof -
  have d: "distinct (map uss_id (projects_userstorystatus demo_db))"
    by (simp add: demo_db_def)
  have e: "qs_error in_project_qs = None"
    by (simp add: in_project_qs_def)
  have f: "filtered demo_db in_project_qs = take 3 (userstories_userstory demo_db)"
    by (simp add: filtered_def demo_join in_project_qs_def) (simp add: demo_db_def)
  from statuses_facet_complete[OF d e, of "\<lambda>s. s" demo_project] obtain facet where
    r: "get_userstories_statuses demo_db (\<lambda>s. s) demo_project in_project_qs = Inr facet"
    and l: "length facet = length (filter (\<lambda>s. uss_project_id s = p_id demo_project)
                                          (projects_userstorystatus demo_db))"
    and b: "\<forall>s \<in> set (projects_userstorystatus demo_db).
        uss_project_id s = p_id demo_project \<longrightarrow>
        filter (\<lambda>r. sf_id r = uss_id s) facet =
          [\<lparr>sf_id = uss_id s, sf_name = uss_name s, sf_color = uss_color s,
            sf_order = uss_order s,
            sf_count = length (filter (\<lambda>u. status_id u = Some (uss_id s))
                                      (filtered demo_db in_project_qs))\<rparr>]"
    by blast
  have l3: "length facet = 3"
    using l by (simp add: demo_db_def demo_project_def)
  have s1: "\<lparr>uss_id = 1, uss_name = ''New'', uss_color = ''#999'', uss_order = 1,
             uss_is_closed = False, uss_project_id = 1\<rparr> \<in> set (projects_userstorystatus demo_db)"
    by (simp add: demo_db_def)
  have s4: "\<lparr>uss_id = 4, uss_name = ''Ready'', uss_color = ''#00f'', uss_order = 3,
             uss_is_closed = False, uss_project_id = 1\<rparr> \<in> set (projects_userstorystatus demo_db)"
    by (simp add: demo_db_def)
  have f1: "filter (\<lambda>r. sf_id r = 1) facet =
        [\<lparr>sf_id = 1, sf_name = ''New'', sf_color = ''#999'', sf_order = 1, sf_count = 2\<rparr>]"
    using bspec[OF b s1] by (simp add: demo_project_def f) (simp add: demo_db_def)
  have f4: "filter (\<lambda>r. sf_id r = 4) facet =
        [\<lparr>sf_id = 4, sf_name = ''Ready'', sf_color = ''#00f'', sf_order = 3, sf_count = 0\<rparr>]"
    using bspec[OF b s4] by (simp add: demo_project_def f) (simp add: demo_db_def)
  show ?thesis
    using d e r l3 f1 f4 by blast
qed

section \<open>Properties of the tag facet\<close>

text \<open>
  C3, as the code has it. When the query runs, the tag facet has exactly one record for
  every tag that occurs in the filtered collection and no record for any other name;
  the record's count is the number of occurrences of the tag in the tag lists of the
  items. Where no item lists a tag twice, that is the number of items whose tags
  contain it. An item whose tag list is \<open>NULL\<close> or empty has no tags, so it adds to no
  count.
\<close>

theorem tags_facet_counts:
  assumes "qs_error qs = None"
  shows "\<exists>facet. get_userstories_tags db qs = Inr facet \<and>
     tf_name ` set facet = set (concat (map item_tags (filtered db qs))) \<and>
     (\<forall>t \<in> set (concat (map item_tags (filtered db qs))).
        filter (\<lambda>r. tf_name r = t) facet =
          [\<lparr>tf_name = t, tf_count = count_list (concat (map item_tags (filtered db qs))) t\<rparr>]) \<and>
     ((\<forall>u \<in> set (filtered db qs). distinct (item_tags u)) \<longrightarrow>
      (\<forall>t \<in> set (concat (map item_tags (filtered db qs))).
        filter (\<lambda>r. tf_name r = t) facet =
          [\<lparr>tf_name = t,
            tf_count = length (filter (\<lambda>u. t \<in> set (item_tags u)) (filtered db qs))\<rparr>]))"
proof -
  define tgs where "tgs = concat (map item_tags (filtered db qs))"
  have cnt: "count_list tgs t = length (filter (\<lambda>u. t \<in> set (item_tags u)) (filtered db qs))"
    if "\<forall>u \<in> set (filtered db qs). distinct (item_tags u)" for t
  proof -
    have "count_list (concat (map item_tags (filtered db qs))) t =
          length (filter (\<lambda>l. t \<in> set l) (map item_tags (filtered db qs)))"
      by (rule count_list_concat_distinct) (use that in auto)
    then show ?thesis by (simp add: tgs_def filter_map o_def)
  qed
  have res: "get_userstories_tags db qs = Inr (tags_result tgs)"
    using get_userstories_tags_eq[OF assms, of db] by (simp add: tgs_def)
  have names: "tf_name ` set (tags_result tgs) = set tgs"
    by (rule tags_result_names)
  have occ: "\<forall>t \<in> set tgs. filter (\<lambda>r. tf_name r = t) (tags_result tgs) =
      [\<lparr>tf_name = t, tf_count = count_list tgs t\<rparr>]"
    using tags_result_one by blast
  have items: "(\<forall>u \<in> set (filtered db qs). distinct (item_tags u)) \<longrightarrow>
      (\<forall>t \<in> set tgs. filter (\<lambda>r. tf_name r = t) (tags_result tgs) =
          [\<lparr>tf_name = t,
            tf_count = length (filter (\<lambda>u. t \<in> set (item_tags u)) (filtered db qs))\<rparr>])"
    using occ cnt by simp
  show ?thesis
    unfolding tgs_def[symmetric] using res names occ items by blast
qed

theorem tags_facet_counts_witness:
  "qs_error in_project_qs = None \<and>
   list_all (\<lambda>u. distinct (item_tags u)) (filtered demo_db in_project_qs) \<and>
   ''bug'' \<in> set (concat (map item_tags (filtered demo_db in_project_qs))) \<and>
   (\<exists>facet. get_userstories_tags demo_db in_project_qs = Inr facet \<and>
      filter (\<lambda>r. tf_name r = ''bug'') facet = [\<lparr>tf_name = ''bug'', tf_count = 2\<rparr>])"
proof -
  have e: "qs_error in_project_qs = None"
    by (simp add: in_project_qs_def)
  have d: "list_all (\<lambda>u. distinct (item_tags u)) (filtered demo_db in_project_qs)"
    by (simp add: demo_filtered) (simp add: demo_db_def item_tags_def)
  have m: "''bug'' \<in> set (concat (map item_tags (filtered demo_db in_project_qs)))"
    by (simp add: demo_filtered) (simp add: demo_db_def item_tags_def)
  have n: "length (filter (\<lambda>u. ''bug'' \<in> set (item_tags u)) (filtered demo_db in_project_qs)) = 2"
    by (simp add: demo_filtered) (simp add: demo_db_def item_tags_def)
  from tags_facet_counts[OF e, of demo_db] obtain facet where
    r: "get_userstories_tags demo_db in_project_qs = Inr facet"
    and i: "(\<forall>u \<in> set (filtered demo_db in_project_qs). distinct (item_tags u)) \<longrightarrow>
      (\<forall>t \<in> set (concat (map item_tags (filtered demo_db in_project_qs))).
        filter (\<lambda>r. tf_name r = t) facet =
          [\<lparr>tf_name = t,
            tf_count = length (filter (\<lambda>u. t \<in> set (item_tags u))
                                      (filtered demo_db in_project_qs))\<rparr>])"
    by blast
  have "\<forall>u \<in> set (filtered demo_db in_project_qs). distinct (item_tags u)"
    using d by (simp add: list_all_iff)
  with i m have "filter (\<lambda>r. tf_name r = ''bug'') facet =
      [\<lparr>tf_name = ''bug'',
        tf_count = length (filter (\<lambda>u. ''bug'' \<in> set (item_tags u))
                                  (filtered demo_db in_project_qs))\<rparr>]"
    by blast
  then show ?thesis
    using e d m r n by simp
qed

text \<open>
  C3 as stated fails where an item lists a tag twice: the count is 2, the number of
  items whose tags contain the tag is 1.
\<close>

theorem tags_count_items_counterexample:
  "get_userstories_tags dup_db all_qs = Inr [\<lparr>tf_name = ''bug'', tf_count = 2\<rparr>] \<and>
   length (filter (\<lambda>u. ''bug'' \<in> set (item_tags u)) (filtered dup_db all_qs)) = 1"
  by (simp add: get_userstories_tags_def cursor_execute_def dup_filtered tags_result_def
      item_tags_def)
     (simp add: all_qs_def dup_db_def tags_result_def)

section \<open>Properties of the assignee facet\<close>

text \<open>
  C4. When the query runs, the assignee facet has exactly one record with id \<open>None\<close>: its
  label is the empty string and its count the number of filtered items without
  assignee. It has exactly one record for every member of the project, also for a member
  no item is assigned to, with the member's id and full name and the number of filtered
  items assigned to the member. It has no other record. User ids are the primary key of
  their table, hence distinct.
\<close>

theorem assigned_to_facet_complete:
  assumes "distinct (map user_id (users_user db))" and "qs_error qs = None"
  shows "\<exists>facet. get_userstories_assigned_to db project qs = Inr facet \<and>
     filter (\<lambda>r. uf_id r = None) facet =
       [\<lparr>uf_id = None, uf_full_name = [],
         uf_count = length (filter (\<lambda>us. assigned_to_id us = None) (filtered db qs))\<rparr>] \<and>
     (\<forall>u \<in> set (project_members db project).
        filter (\<lambda>r. uf_id r = Some (user_id u)) facet =
          [\<lparr>uf_id = Some (user_id u), uf_full_name = full_name u,
            uf_count = length (filter (\<lambda>us. assigned_to_id us = Some (user_id u))
                                      (filtered db qs))\<rparr>]) \<and>
     (\<forall>r \<in> set facet. uf_id r = None \<or>
        (\<exists>u \<in> set (project_members db project). uf_id r = Some (user_id u)))"
proof -
  define J where "J = membership_join_user db project"
  define row :: "membership \<times> user \<Rightarrow> int option \<times> string option \<times> nat" where
    "row = (\<lambda>(m, u). (Some (user_id u), Some (full_name u),
             select_count db qs (\<lambda>us. sql_eq (assigned_to_id us) (mem_user_id m))))"
  define r0 :: "int option \<times> string option \<times> nat" where
    "r0 = (None, None, select_count db qs (\<lambda>u. assigned_to_id u = None))"
  define mk :: "int option \<times> string option \<times> nat \<Rightarrow> user_facet" where
    "mk = (\<lambda>(i, fname, cnt). \<lparr>uf_id = i, uf_full_name = or_empty fname, uf_count = cnt\<rparr>)"
  define R :: "user \<Rightarrow> int option \<times> string option \<times> nat" where
    "R = (\<lambda>u. (Some (user_id u), Some (full_name u),
          length (filter (\<lambda>us. assigned_to_id us = Some (user_id u)) (filtered db qs))))"
  define facet where "facet = sort_key uf_full_name (map mk (remdups (r0 # map row J)))"
  have rows: "assigned_to_rows db project qs = remdups (r0 # map row J)"
    by (simp add: assigned_to_rows_def r0_def row_def J_def)
  have res: "get_userstories_assigned_to db project qs = Inr facet"
    using assms(2) by (simp add: get_userstories_assigned_to_def cursor_execute_def rows
        facet_def mk_def)
  have rowR: "row (m, u) = R u" if "(m, u) \<in> set J" for m u
    using that assigned_to_row_member[of m u db project qs] by (simp add: J_def row_def R_def)
  have uf_mk: "uf_id (mk x) = fst x" for x
    by (simp add: mk_def case_prod_beta)
  have fst_row: "fst (row x) = Some (user_id (snd x))" for x
    by (simp add: row_def case_prod_beta)
  have sel: "filter (\<lambda>r. uf_id r = i) facet =
             sort_key uf_full_name (map mk (remdups (filter (\<lambda>x. fst x = i) (r0 # map row J))))" for i
    by (simp add: facet_def filter_sort filter_map o_def uf_mk remdups_filter del: filter.simps)
  have none: "filter (\<lambda>x. fst x = None) (r0 # map row J) = [r0]"
    by (simp add: r0_def filter_map o_def fst_row)
  have un: "filter (\<lambda>r. uf_id r = None) facet =
       [\<lparr>uf_id = None, uf_full_name = [],
         uf_count = length (filter (\<lambda>us. assigned_to_id us = None) (filtered db qs))\<rparr>]"
    unfolding sel none
    by (simp add: mk_def r0_def or_empty_def select_count_filtered)
  have mem: "filter (\<lambda>r. uf_id r = Some (user_id u)) facet =
          [\<lparr>uf_id = Some (user_id u), uf_full_name = full_name u,
            uf_count = length (filter (\<lambda>us. assigned_to_id us = Some (user_id u))
                                      (filtered db qs))\<rparr>]"
    if u: "u \<in> set (project_members db project)" for u
  proof -
    define L where "L = filter (\<lambda>x. user_id (snd x) = user_id u) J"
    have f: "filter (\<lambda>x. fst x = Some (user_id u)) (r0 # map row J) = map row L"
      by (simp add: r0_def filter_map o_def fst_row L_def)
    obtain m where mu: "(m, u) \<in> set J"
      using u by (auto simp: project_members_iff J_def)
    then have "(m, u) \<in> set L"
      by (simp add: L_def)
    then have ne: "map row L \<noteq> []"
      by auto
    have uin: "u \<in> set (users_user db)"
      using mu by (simp add: J_def membership_join_user_iff)
    have eq: "y = R u" if "y \<in> set (map row L)" for y
    proof -
      from that obtain m' u' where y: "y = row (m', u')" and in_J: "(m', u') \<in> set J"
        and id: "user_id u' = user_id u"
        by (auto simp: L_def)
      have "u' \<in> set (users_user db)"
        using in_J by (simp add: J_def membership_join_user_iff)
      then have "u' = u"
        using user_id_unique[OF assms(1) _ uin id] by simp
      then show ?thesis using y rowR[OF in_J] by simp
    qed
    have "remdups (map row L) = [R u]"
      using remdups_all_equal[OF ne eq] by simp
    then show ?thesis
      unfolding sel f by (simp add: mk_def R_def or_empty_Some)
  qed
  have only: "uf_id r = None \<or> (\<exists>u \<in> set (project_members db project). uf_id r = Some (user_id u))"
    if "r \<in> set facet" for r
  proof -
    have "set facet = insert (mk r0) ((\<lambda>x. mk (row x)) ` set J)"
      unfolding facet_def set_sort set_map set_remdups by auto
    with that have "r = mk r0 \<or> (\<exists>x \<in> set J. r = mk (row x))"
      by auto
    then show ?thesis
    proof
      assume "r = mk r0"
      then show ?thesis by (simp add: uf_mk r0_def)
    next
      assume "\<exists>x \<in> set J. r = mk (row x)"
      then obtain m u where "(m, u) \<in> set J" and "r = mk (row (m, u))" by auto
      then have "u \<in> set (project_members db project)" and "uf_id r = Some (user_id u)"
        by (auto simp: project_members_iff J_def uf_mk fst_row)
      then show ?thesis by blast
    qed
  qed
  show ?thesis
    using res un mem only by blast
qed

theorem assigned_to_facet_complete_witness:
  "distinct (map user_id (users_user demo_db)) \<and> qs_error in_project_qs = None \<and>
   \<lparr>user_id = 2, full_name = ''Bob'', is_system = False\<rparr> \<in> set (project_members demo_db demo_project) \<and>
   (\<exists>facet. get_userstories_assigned_to demo_db demo_project in_project_qs = Inr facet \<and>
      filter (\<lambda>r. uf_id r = None) facet = [\<lparr>uf_id = None, uf_full_name = [], uf_count = 1\<rparr>] \<and>
      filter (\<lambda>r. uf_id r = Some 2) facet =
        [\<lparr>uf_id = Some 2, uf_full_name = ''Bob'', uf_count = 0\<rparr>])"
proof -
  have d: "distinct (map user_id (users_user demo_db))"
    by (simp add: demo_db_def)
  have e: "qs_error in_project_qs = None"
    by (simp add: in_project_qs_def)
  have b: "\<lparr>user_id = 2, full_name = ''Bob'', is_system = False\<rparr>
           \<in> set (project_members demo_db demo_project)"
    by (simp add: project_members_def demo_db_def demo_project_def)
  from assigned_to_facet_complete[OF d e, of demo_project] obtain facet where
    r: "get_userstories_assigned_to demo_db demo_project in_project_qs = Inr facet"
    and un: "filter (\<lambda>r. uf_id r = None) facet =
       [\<lparr>uf_id = None, uf_full_name = [],
         uf_count = length (filter (\<lambda>us. assigned_to_id us = None)
                                   (filtered demo_db in_project_qs))\<rparr>]"
    and mem: "\<forall>u \<in> set (project_members demo_db demo_project).
        filter (\<lambda>r. uf_id r = Some (user_id u)) facet =
          [\<lparr>uf_id = Some (user_id u), uf_full_name = full_name u,
            uf_count = length (filter (\<lambda>us. assigned_to_id us = Some (user_id u))
                                      (filtered demo_db in_project_qs))\<rparr>]"
    by blast
  have un1: "filter (\<lambda>r. uf_id r = None) facet = [\<lparr>uf_id = None, uf_full_name = [], uf_count = 1\<rparr>]"
    using un by (simp add: demo_filtered) (simp add: demo_db_def)
  have bob: "filter (\<lambda>r. uf_id r = Some 2) facet =
        [\<lparr>uf_id = Some 2, uf_full_name = ''Bob'', uf_count = 0\<rparr>]"
    using bspec[OF mem b] by (simp add: demo_filtered) (simp add: demo_db_def)
  show ?thesis
    using d e b r un1 bob by blast
qed

section \<open>Properties of the owner facet\<close>

text \<open>
  C5 on the example data. User 9 is a system account, has no membership and owns one
  item of the filtered collection, so the owner facet should hold a record for it with
  count 1. The query keeps the row of user 9 (\<open>is_system\<close> is true), but the subquery
  compares \<open>owner_id\<close> with \<open>projects_membership.user_id\<close>, which is \<open>NULL\<close> in that row:
  the count is 0 and the loop drops the record.
\<close>

theorem owners_facet_system_account_missing:
  "is_system \<lparr>user_id = 9, full_name = ''Github'', is_system = True\<rparr> \<and>
   \<lparr>user_id = 9, full_name = ''Github'', is_system = True\<rparr> \<in> set (users_user demo_db) \<and>
   length (filter (\<lambda>us. owner_id us = Some 9) (filtered demo_db in_project_qs)) = 1 \<and>
   get_userstories_owners demo_db demo_project in_project_qs =
     Inr [\<lparr>uf_id = Some 1, uf_full_name = ''Alice'', uf_count = 2\<rparr>]"
  by (simp add: demo_owners demo_filtered) (simp add: demo_db_def)

section \<open>Ordering of the facets\<close>

text \<open>
  C6. Whenever a facet function returns, its result is sorted by the key it passes to
  \<open>sorted\<close>: the status facet is non-decreasing in \<open>order\<close>, the assignee and owner
  facets are sorted by \<open>full_name\<close> and the tag facet by \<open>name\<close>, strings being compared
  as Python compares them.
\<close>

theorem facets_sorted:
  "(get_userstories_statuses db gettext project q1 = Inr r1 \<longrightarrow> sorted (map sf_order r1)) \<and>
   (get_userstories_assigned_to db project q2 = Inr r2 \<longrightarrow> sorted (map uf_full_name r2)) \<and>
   (get_userstories_owners db project q3 = Inr r3 \<longrightarrow> sorted (map uf_full_name r3)) \<and>
   (get_userstories_tags db q4 = Inr r4 \<longrightarrow> sorted (map tf_name r4))"
proof -
  have s1: "sorted (map sf_order r1)"
    if "get_userstories_statuses db gettext project q1 = Inr r1"
    using that by (auto simp: get_userstories_statuses_def split: sum.splits)
  have s2: "sorted (map uf_full_name r2)"
    if "get_userstories_assigned_to db project q2 = Inr r2"
    using that by (auto simp: get_userstories_assigned_to_def split: sum.splits)
  have s3: "sorted (map uf_full_name r3)"
    if "get_userstories_owners db project q3 = Inr r3"
    using that by (auto simp: get_userstories_owners_def split: sum.splits)
  have s4: "sorted (map tf_name r4)"
    if "get_userstories_tags db q4 = Inr r4"
    using that by (auto simp: get_userstories_tags_def tags_result_def split: sum.splits)
  show ?thesis using s1 s2 s3 s4 by blast
qed

theorem facets_sorted_witness:
  "get_userstories_statuses demo_db (\<lambda>s. s) demo_project in_project_qs =
     Inr [\<lparr>sf_id = 1, sf_name = ''New'', sf_color = ''#999'', sf_order = 1, sf_count = 2\<rparr>,
          \<lparr>sf_id = 2, sf_name = ''Done'', sf_color = ''#0f0'', sf_order = 2, sf_count = 1\<rparr>,
          \<lparr>sf_id = 4, sf_name = ''Ready'', sf_color = ''#00f'', sf_order = 3, sf_count = 0\<rparr>] \<and>
   sorted [1 :: int, 2, 3] \<and>
   get_userstories_assigned_to demo_db demo_project in_project_qs =
     Inr [\<lparr>uf_id = None, uf_full_name = [], uf_count = 1\<rparr>,
          \<lparr>uf_id = Some 1, uf_full_name = ''Alice'', uf_count = 2\<rparr>,
          \<lparr>uf_id = Some 2, uf_full_name = ''Bob'', uf_count = 0\<rparr>] \<and>
   sorted [[], ''Alice'', ''Bob''] \<and>
   get_userstories_owners demo_db demo_project in_project_qs =
     Inr [\<lparr>uf_id = Some 1, uf_full_name = ''Alice'', uf_count = 2\<rparr>] \<and>
   sorted [''Alice''] \<and>
   get_userstories_tags demo_db in_project_qs =
     Inr [\<lparr>tf_name = ''bug'', tf_count = 2\<rparr>, \<lparr>tf_name = ''ui'', tf_count = 1\<rparr>] \<and>
   sorted [''bug'', ''ui'']"
proof -
  let ?r1 = "[\<lparr>sf_id = 1, sf_name = ''New'', sf_color = ''#999'', sf_order = 1, sf_count = 2\<rparr>,
          \<lparr>sf_id = 2, sf_name = ''Done'', sf_color = ''#0f0'', sf_order = 2, sf_count = 1\<rparr>,
          \<lparr>sf_id = 4, sf_name = ''Ready'', sf_color = ''#00f'', sf_order = 3, sf_count = 0\<rparr>]"
  let ?r2 = "[\<lparr>uf_id = None, uf_full_name = [], uf_count = 1\<rparr>,
          \<lparr>uf_id = Some 1, uf_full_name = ''Alice'', uf_count = 2\<rparr>,
          \<lparr>uf_id = Some 2, uf_full_name = ''Bob'', uf_count = 0\<rparr>]"
  let ?r3 = "[\<lparr>uf_id = Some 1, uf_full_name = ''Alice'', uf_count = 2\<rparr>]"
  let ?r4 = "[\<lparr>tf_name = ''bug'', tf_count = 2\<rparr>, \<lparr>tf_name = ''ui'', tf_count = 1\<rparr>]"
  note ev = demo_statuses demo_assigned_to demo_owners demo_tags
  show ?thesis
    using facets_sorted[of demo_db "\<lambda>s. s" demo_project in_project_qs ?r1 in_project_qs ?r2
        in_project_qs ?r3 in_project_qs ?r4] ev
    by simp
qed

section \<open>Properties of get\_userstories\_filters\_data\<close>

text \<open>
  The two facets as the dictionary carries them: the facts of the sections on the
  status facet and the assignee facet, for use below.
\<close>

lemma statuses_facet_shape:
  assumes "distinct (map uss_id (projects_userstorystatus db))" and "qs_error qs = None"
  shows "\<exists>facet. get_userstories_statuses db gettext project qs = Inr facet \<and>
     length facet = length (filter (\<lambda>s. uss_project_id s = p_id project)
                                   (projects_userstorystatus db)) \<and>
     (\<forall>s \<in> set (projects_userstorystatus db). uss_project_id s = p_id project \<longrightarrow>
        filter (\<lambda>r. sf_id r = uss_id s) facet =
          [\<lparr>sf_id = uss_id s, sf_name = gettext (uss_name s), sf_color = uss_color s,
            sf_order = uss_order s,
            sf_count = length (filter (\<lambda>u. status_id u = Some (uss_id s)) (filtered db qs))\<rparr>])"
proof -
  define S where "S = filter (\<lambda>s. uss_project_id s = p_id project) (projects_userstorystatus db)"
  define F :: "userstorystatus \<Rightarrow> status_facet" where "F = (\<lambda>s. \<lparr>sf_id = uss_id s, sf_name = gettext (uss_name s),
      sf_color = uss_color s, sf_order = uss_order s,
      sf_count = length (filter (\<lambda>u. status_id u = Some (uss_id s)) (filtered db qs))\<rparr>)"
  define facet where "facet = sort_key sf_order (map F (sort_key uss_order S))"
  have res: "get_userstories_statuses db gettext project qs = Inr facet"
    using assms(2) statuses_rows_facets[of gettext db project qs]
    by (simp add: get_userstories_statuses_def cursor_execute_def facet_def F_def S_def)
  have len: "length facet = length S" by (simp add: facet_def)
  have dS: "distinct (map uss_id S)" unfolding S_def using assms(1) by (rule distinct_map_filter)
  have one: "filter (\<lambda>r. sf_id r = uss_id s) facet = [F s]" if "s \<in> set S" for s
  proof -
    have "filter (\<lambda>r. sf_id r = uss_id s) facet =
          sort_key sf_order (map F (sort_key uss_order (filter (\<lambda>y. uss_id y = uss_id s) S)))"
      by (simp add: facet_def filter_sort filter_map o_def F_def)
    also have "\<dots> = [F s]" using filter_key_distinct[OF dS that] by simp
    finally show ?thesis .
  qed
  show ?thesis
    using res len one unfolding S_def F_def by auto
qed

lemma assigned_to_facet_shape:
  assumes "distinct (map user_id (users_user db))" and "qs_error qs = None"
  shows "\<exists>facet. get_userstories_assigned_to db project qs = Inr facet \<and>
     filter (\<lambda>r. uf_id r = None) facet =
       [\<lparr>uf_id = None, uf_full_name = [],
         uf_count = length (filter (\<lambda>us. assigned_to_id us = None) (filtered db qs))\<rparr>] \<and>
     (\<forall>u \<in> set (project_members db project).
        filter (\<lambda>r. uf_id r = Some (user_id u)) facet =
          [\<lparr>uf_id = Some (user_id u), uf_full_name = full_name u,
            uf_count = length (filter (\<lambda>us. assigned_to_id us = Some (user_id u))
                                      (filtered db qs))\<rparr>]) \<and>
     (\<forall>r \<in> set facet. uf_id r = None \<or>
        (\<exists>u \<in> set (project_members db project). uf_id r = Some (user_id u)))"
proof -
  define J where "J = membership_join_user db project"
  define row :: "membership \<times> user \<Rightarrow> int option \<times> string option \<times> nat" where
    "row = (\<lambda>(m, u). (Some (user_id u), Some (full_name u),
             select_count db qs (\<lambda>us. sql_eq (assigned_to_id us) (mem_user_id m))))"
  define r0 :: "int option \<times> string option \<times> nat" where
    "r0 = (None, None, select_count db qs (\<lambda>u. assigned_to_id u = None))"
  define mk :: "int option \<times> string option \<times> nat \<Rightarrow> user_facet" where
    "mk = (\<lambda>(i, fname, cnt). \<lparr>uf_id = i, uf_full_name = or_empty fname, uf_count = cnt\<rparr>)"
  define R :: "user \<Rightarrow> int option \<times> string option \<times> nat" where
    "R = (\<lambda>u. (Some (user_id u), Some (full_name u),
          length (filter (\<lambda>us. assigned_to_id us = Some (user_id u)) (filtered db qs))))"
  define facet where "facet = sort_key uf_full_name (map mk (remdups (r0 # map row J)))"
  have rows: "assigned_to_rows db project qs = remdups (r0 # map row J)"
    by (simp add: assigned_to_rows_def r0_def row_def J_def)
  have res: "get_userstories_assigned_to db project qs = Inr facet"
    using assms(2) by (simp add: get_userstories_assigned_to_def cursor_execute_def rows
        facet_def mk_def)
  have rowR: "row (m, u) = R u" if "(m, u) \<in> set J" for m u
    using that assigned_to_row_member[of m u db project qs] by (simp add: J_def row_def R_def)
  have uf_mk: "uf_id (mk x) = fst x" for x
    by (simp add: mk_def case_prod_beta)
  have fst_row: "fst (row x) = Some (user_id (snd x))" for x
    by (simp add: row_def case_prod_beta)
  have sel: "filter (\<lambda>r. uf_id r = i) facet =
             sort_key uf_full_name (map mk (remdups (filter (\<lambda>x. fst x = i) (r0 # map row J))))" for i
    by (simp add: facet_def filter_sort filter_map o_def uf_mk remdups_filter del: filter.simps)
  have none: "filter (\<lambda>x. fst x = None) (r0 # map row J) = [r0]"
    by (simp add: r0_def filter_map o_def fst_row)
  have un: "filter (\<lambda>r. uf_id r = None) facet =
       [\<lparr>uf_id = None, uf_full_name = [],
         uf_count = length (filter (\<lambda>us. assigned_to_id us = None) (filtered db qs))\<rparr>]"
    unfolding sel none
    by (simp add: mk_def r0_def or_empty_def select_count_filtered)
  have mem: "filter (\<lambda>r. uf_id r = Some (user_id u)) facet =
          [\<lparr>uf_id = Some (user_id u), uf_full_name = full_name u,
            uf_count = length (filter (\<lambda>us. assigned_to_id us = Some (user_id u))
                                      (filtered db qs))\<rparr>]"
    if u: "u \<in> set (project_members db project)" for u
  proof -
    define L where "L = filter (\<lambda>x. user_id (snd x) = user_id u) J"
    have f: "filter (\<lambda>x. fst x = Some (user_id u)) (r0 # map row J) = map row L"
      by (simp add: r0_def filter_map o_def fst_row L_def)
    obtain m where mu: "(m, u) \<in> set J"
      using u by (auto simp: project_members_iff J_def)
    then have "(m, u) \<in> set L"
      by (simp add: L_def)
    then have ne: "map row L \<noteq> []"
      by auto
    have uin: "u \<in> set (users_user db)"
      using mu by (simp add: J_def membership_join_user_iff)
    have eq: "y = R u" if "y \<in> set (map row L)" for y
    proof -
      from that obtain m' u' where y: "y = row (m', u')" and in_J: "(m', u') \<in> set J"
        and id: "user_id u' = user_id u"
        by (auto simp: L_def)
      have "u' \<in> set (users_user db)"
        using in_J by (simp add: J_def membership_join_user_iff)
      then have "u' = u"
        using user_id_unique[OF assms(1) _ uin id] by simp
      then show ?thesis using y rowR[OF in_J] by simp
    qed
    have "remdups (map row L) = [R u]"
      using remdups_all_equal[OF ne eq] by simp
    then show ?thesis
      unfolding sel f by (simp add: mk_def R_def or_empty_Some)
  qed
  have only: "uf_id r = None \<or> (\<exists>u \<in> set (project_members db project). uf_id r = Some (user_id u))"
    if "r \<in> set facet" for r
  proof -
    have "set facet = insert (mk r0) ((\<lambda>x. mk (row x)) ` set J)"
      unfolding facet_def set_sort set_map set_remdups by auto
    with that have "r = mk r0 \<or> (\<exists>x \<in> set J. r = mk (row x))"
      by auto
    then show ?thesis
    proof
      assume "r = mk r0"
      then show ?thesis by (simp add: uf_mk r0_def)
    next
      assume "\<exists>x \<in> set J. r = mk (row x)"
      then obtain m u where "(m, u) \<in> set J" and "r = mk (row (m, u))" by auto
      then have "u \<in> set (project_members db project)" and "uf_id r = Some (user_id u)"
        by (auto simp: project_members_iff J_def uf_mk fst_row)
      then show ?thesis by blast
    qed
  qed
  show ?thesis
    using res un mem only by blast
qed

text \<open>
  C7, as the code has it. When the dictionary holds the four querysets and their queries
  run, the result is the ordered dictionary with exactly the keys \<open>statuses\<close>,
  \<open>assigned_to\<close>, \<open>owners\<close> and \<open>tags\<close>, in that order. For an empty filtered collection
  the value of \<open>owners\<close> and of \<open>tags\<close> is the empty list. The value of \<open>statuses\<close> is not
  emptied: it keeps exactly one record for every status of the project, with count 0,
  and has no other record. Nor is the value of \<open>assigned_to\<close>: it keeps exactly one
  record with id \<open>None\<close>, the empty label and count 0, exactly one record for every
  member of the project, with count 0, and no other record. Status ids and user ids are
  the primary keys of their tables, hence distinct.
\<close>

theorem filters_data_keys:
  assumes "querysets ''statuses'' = Some q1" and "querysets ''assigned_to'' = Some q2"
    and "querysets ''owners'' = Some q3" and "querysets ''tags'' = Some q4"
    and "qs_error q1 = None" and "qs_error q2 = None"
    and "qs_error q3 = None" and "qs_error q4 = None"
    and "distinct (map uss_id (projects_userstorystatus db))"
    and "distinct (map user_id (users_user db))"
  shows "\<exists>r1 r2 r3 r4.
     get_userstories_filters_data db gettext project querysets =
       Inr [(''statuses'', StatusFacets r1), (''assigned_to'', UserFacets r2),
            (''owners'', UserFacets r3), (''tags'', TagFacets r4)] \<and>
     (filtered db q1 = [] \<longrightarrow>
        length r1 = length (filter (\<lambda>s. uss_project_id s = p_id project)
                                   (projects_userstorystatus db)) \<and>
        (\<forall>s \<in> set (projects_userstorystatus db). uss_project_id s = p_id project \<longrightarrow>
           filter (\<lambda>r. sf_id r = uss_id s) r1 =
             [\<lparr>sf_id = uss_id s, sf_name = gettext (uss_name s), sf_color = uss_color s,
               sf_order = uss_order s, sf_count = 0\<rparr>])) \<and>
     (filtered db q2 = [] \<longrightarrow>
        filter (\<lambda>r. uf_id r = None) r2 = [\<lparr>uf_id = None, uf_full_name = [], uf_count = 0\<rparr>] \<and>
        (\<forall>u \<in> set (project_members db project).
           filter (\<lambda>r. uf_id r = Some (user_id u)) r2 =
             [\<lparr>uf_id = Some (user_id u), uf_full_name = full_name u, uf_count = 0\<rparr>]) \<and>
        (\<forall>r \<in> set r2. uf_id r = None \<or>
           (\<exists>u \<in> set (project_members db project). uf_id r = Some (user_id u)))) \<and>
     (filtered db q3 = [] \<longrightarrow> r3 = []) \<and>
     (filtered db q4 = [] \<longrightarrow> r4 = [])"
proof -
  obtain r1 where r1: "get_userstories_statuses db gettext project q1 = Inr r1"
    using assms(5) by (simp add: statuses_Inr)
  obtain r2 where r2: "get_userstories_assigned_to db project q2 = Inr r2"
    using assms(6) by (simp add: assigned_to_Inr)
  obtain r3 where r3: "get_userstories_owners db project q3 = Inr r3"
    using assms(7) by (simp add: owners_Inr)
  obtain r4 where r4: "get_userstories_tags db q4 = Inr r4"
    using assms(8) by (simp add: tags_Inr)
  have res: "get_userstories_filters_data db gettext project querysets =
       Inr [(''statuses'', StatusFacets r1), (''assigned_to'', UserFacets r2),
            (''owners'', UserFacets r3), (''tags'', TagFacets r4)]"
    unfolding filters_data_bind[OF assms(1-4)] r1 r2 r3 r4 bind_error_Inr ..
  have s_len: "length r1 = length (filter (\<lambda>s. uss_project_id s = p_id project)
                                          (projects_userstorystatus db))"
    and s_one: "\<forall>s \<in> set (projects_userstorystatus db). uss_project_id s = p_id project \<longrightarrow>
        filter (\<lambda>r. sf_id r = uss_id s) r1 =
          [\<lparr>sf_id = uss_id s, sf_name = gettext (uss_name s), sf_color = uss_color s,
            sf_order = uss_order s,
            sf_count = length (filter (\<lambda>u. status_id u = Some (uss_id s)) (filtered db q1))\<rparr>]"
    using statuses_facet_shape[OF assms(9) assms(5), of gettext project] r1 by auto
  have a_un: "filter (\<lambda>r. uf_id r = None) r2 =
       [\<lparr>uf_id = None, uf_full_name = [],
         uf_count = length (filter (\<lambda>us. assigned_to_id us = None) (filtered db q2))\<rparr>]"
    and a_mem: "\<forall>u \<in> set (project_members db project).
        filter (\<lambda>r. uf_id r = Some (user_id u)) r2 =
          [\<lparr>uf_id = Some (user_id u), uf_full_name = full_name u,
            uf_count = length (filter (\<lambda>us. assigned_to_id us = Some (user_id u))
                                      (filtered db q2))\<rparr>]"
    and a_only: "\<forall>r \<in> set r2. uf_id r = None \<or>
        (\<exists>u \<in> set (project_members db project). uf_id r = Some (user_id u))"
    using assigned_to_facet_shape[OF assms(10) assms(6), of project] r2 by auto
  have e1: "length r1 = length (filter (\<lambda>s. uss_project_id s = p_id project)
                                       (projects_userstorystatus db)) \<and>
        (\<forall>s \<in> set (projects_userstorystatus db). uss_project_id s = p_id project \<longrightarrow>
           filter (\<lambda>r. sf_id r = uss_id s) r1 =
             [\<lparr>sf_id = uss_id s, sf_name = gettext (uss_name s), sf_color = uss_color s,
               sf_order = uss_order s, sf_count = 0\<rparr>])"
    if f: "filtered db q1 = []"
    using s_len s_one unfolding f by simp
  have e2: "filter (\<lambda>r. uf_id r = None) r2 = [\<lparr>uf_id = None, uf_full_name = [], uf_count = 0\<rparr>] \<and>
        (\<forall>u \<in> set (project_members db project).
           filter (\<lambda>r. uf_id r = Some (user_id u)) r2 =
             [\<lparr>uf_id = Some (user_id u), uf_full_name = full_name u, uf_count = 0\<rparr>]) \<and>
        (\<forall>r \<in> set r2. uf_id r = None \<or>
           (\<exists>u \<in> set (project_members db project). uf_id r = Some (user_id u)))"
    if f: "filtered db q2 = []"
    using a_un a_mem a_only unfolding f by simp
  show ?thesis
    using res e1 e2 owners_empty[OF _ r3] tags_empty[OF _ r4]
    by blast
qed

theorem filters_data_keys_witness:
  "none_querysets ''statuses'' = Some none_qs \<and> none_querysets ''assigned_to'' = Some none_qs \<and>
   none_querysets ''owners'' = Some none_qs \<and> none_querysets ''tags'' = Some none_qs \<and>
   qs_error none_qs = None \<and> filtered demo_db none_qs = [] \<and>
   distinct (map uss_id (projects_userstorystatus demo_db)) \<and>
   distinct (map user_id (users_user demo_db)) \<and>
   \<lparr>user_id = 2, full_name = ''Bob'', is_system = False\<rparr> \<in> set (project_members demo_db demo_project) \<and>
   (\<exists>r1 r2.
      get_userstories_filters_data demo_db (\<lambda>s. s) demo_project none_querysets =
        Inr [(''statuses'', StatusFacets r1), (''assigned_to'', UserFacets r2),
             (''owners'', UserFacets []), (''tags'', TagFacets [])] \<and>
      length r1 = 3 \<and>
      filter (\<lambda>r. sf_id r = 4) r1 =
        [\<lparr>sf_id = 4, sf_name = ''Ready'', sf_color = ''#00f'', sf_order = 3, sf_count = 0\<rparr>] \<and>
      filter (\<lambda>r. uf_id r = None) r2 = [\<lparr>uf_id = None, uf_full_name = [], uf_count = 0\<rparr>] \<and>
      filter (\<lambda>r. uf_id r = Some 2) r2 =
        [\<lparr>uf_id = Some 2, uf_full_name = ''Bob'', uf_count = 0\<rparr>])"
proof -
  have k1: "none_querysets ''statuses'' = Some none_qs"
    and k2: "none_querysets ''assigned_to'' = Some none_qs"
    and k3: "none_querysets ''owners'' = Some none_qs"
    and k4: "none_querysets ''tags'' = Some none_qs"
    by (simp_all add: none_querysets_def)
  have e: "qs_error none_qs = None"
    by (simp add: none_qs_def)
  have d1: "distinct (map uss_id (projects_userstorystatus demo_db))"
    and d2: "distinct (map user_id (users_user demo_db))"
    by (simp_all add: demo_db_def)
  have bob: "\<lparr>user_id = 2, full_name = ''Bob'', is_system = False\<rparr>
             \<in> set (project_members demo_db demo_project)"
    by (simp add: project_members_def demo_db_def demo_project_def)
  have s4: "\<lparr>uss_id = 4, uss_name = ''Ready'', uss_color = ''#00f'', uss_order = 3,
             uss_is_closed = False, uss_project_id = 1\<rparr> \<in> set (projects_userstorystatus demo_db)"
    by (simp add: demo_db_def)
  from filters_data_keys[OF k1 k2 k3 k4 e e e e d1 d2, of "\<lambda>s. s" demo_project] none_filtered
  obtain r1 r2 r3 r4 where
    res: "get_userstories_filters_data demo_db (\<lambda>s. s) demo_project none_querysets =
       Inr [(''statuses'', StatusFacets r1), (''assigned_to'', UserFacets r2),
            (''owners'', UserFacets r3), (''tags'', TagFacets r4)]"
    and len: "length r1 = length (filter (\<lambda>s. uss_project_id s = p_id demo_project)
                                         (projects_userstorystatus demo_db))"
    and st: "\<forall>s \<in> set (projects_userstorystatus demo_db). uss_project_id s = p_id demo_project \<longrightarrow>
           filter (\<lambda>r. sf_id r = uss_id s) r1 =
             [\<lparr>sf_id = uss_id s, sf_name = uss_name s, sf_color = uss_color s,
               sf_order = uss_order s, sf_count = 0\<rparr>]"
    and un: "filter (\<lambda>r. uf_id r = None) r2 = [\<lparr>uf_id = None, uf_full_name = [], uf_count = 0\<rparr>]"
    and mem: "\<forall>u \<in> set (project_members demo_db demo_project).
           filter (\<lambda>r. uf_id r = Some (user_id u)) r2 =
             [\<lparr>uf_id = Some (user_id u), uf_full_name = full_name u, uf_count = 0\<rparr>]"
    and o: "r3 = []" and t: "r4 = []"
    by blast
  have l3: "length r1 = 3"
    using len by (simp add: demo_db_def demo_project_def)
  have f4: "filter (\<lambda>r. sf_id r = 4) r1 =
        [\<lparr>sf_id = 4, sf_name = ''Ready'', sf_color = ''#00f'', sf_order = 3, sf_count = 0\<rparr>]"
    using bspec[OF st s4] by (simp add: demo_project_def)
  have fb: "filter (\<lambda>r. uf_id r = Some 2) r2 =
        [\<lparr>uf_id = Some 2, uf_full_name = ''Bob'', uf_count = 0\<rparr>]"
    using bspec[OF mem bob] by simp
  have res': "get_userstories_filters_data demo_db (\<lambda>s. s) demo_project none_querysets =
       Inr [(''statuses'', StatusFacets r1), (''assigned_to'', UserFacets r2),
            (''owners'', UserFacets []), (''tags'', TagFacets [])]"
    using res o t by simp
  show ?thesis
    using k1 k2 k3 k4 e none_filtered d1 d2 bob res' l3 f4 un fb by blast
qed

text \<open>
  C7 as stated fails for the values: all four filtered collections are empty, yet the
  value of \<open>statuses\<close> and the value of \<open>assigned_to\<close> are not empty sequences.
\<close>

theorem filters_data_empty_counterexample:
  "filtered demo_db none_qs = [] \<and>
   get_userstories_filters_data demo_db (\<lambda>s. s) demo_project none_querysets =
     Inr [(''statuses'', StatusFacets
            [\<lparr>sf_id = 1, sf_name = ''New'', sf_color = ''#999'', sf_order = 1, sf_count = 0\<rparr>,
             \<lparr>sf_id = 2, sf_name = ''Done'', sf_color = ''#0f0'', sf_order = 2, sf_count = 0\<rparr>,
             \<lparr>sf_id = 4, sf_name = ''Ready'', sf_color = ''#00f'', sf_order = 3, sf_count = 0\<rparr>]),
          (''assigned_to'', UserFacets
            [\<lparr>uf_id = None, uf_full_name = [], uf_count = 0\<rparr>,
             \<lparr>uf_id = Some 1, uf_full_name = ''Alice'', uf_count = 0\<rparr>,
             \<lparr>uf_id = Some 2, uf_full_name = ''Bob'', uf_count = 0\<rparr>]),
          (''owners'', UserFacets []),
          (''tags'', TagFacets [])]"
proof -
  have k: "none_querysets ''statuses'' = Some none_qs" "none_querysets ''assigned_to'' = Some none_qs"
    "none_querysets ''owners'' = Some none_qs" "none_querysets ''tags'' = Some none_qs"
    by (simp_all add: none_querysets_def)
  show ?thesis
    unfolding filters_data_bind[OF k] none_statuses none_assigned_to none_owners none_tags
      bind_error_Inr
    by (simp add: none_filtered)
qed

text \<open>
  C8. With the four querysets in the dictionary: when the query of a dimension raises
  and the queries of the dimensions before it ran, \<open>get_userstories_filters_data\<close> raises
  that same error and returns nothing; so it raises whenever one of the four queries
  does. When it returns a dictionary, all four queries ran and the dictionary holds their
  four complete results.
\<close>

theorem filters_data_all_or_nothing:
  assumes "querysets ''statuses'' = Some q1" and "querysets ''assigned_to'' = Some q2"
    and "querysets ''owners'' = Some q3" and "querysets ''tags'' = Some q4"
  shows
    "(get_userstories_statuses db gettext project q1 = Inl e \<longrightarrow>
        get_userstories_filters_data db gettext project querysets = Inl e) \<and>
     (get_userstories_statuses db gettext project q1 = Inr r1 \<and>
      get_userstories_assigned_to db project q2 = Inl e \<longrightarrow>
        get_userstories_filters_data db gettext project querysets = Inl e) \<and>
     (get_userstories_statuses db gettext project q1 = Inr r1 \<and>
      get_userstories_assigned_to db project q2 = Inr r2 \<and>
      get_userstories_owners db project q3 = Inl e \<longrightarrow>
        get_userstories_filters_data db gettext project querysets = Inl e) \<and>
     (get_userstories_statuses db gettext project q1 = Inr r1 \<and>
      get_userstories_assigned_to db project q2 = Inr r2 \<and>
      get_userstories_owners db project q3 = Inr r3 \<and>
      get_userstories_tags db q4 = Inl e \<longrightarrow>
        get_userstories_filters_data db gettext project querysets = Inl e) \<and>
     (get_userstories_filters_data db gettext project querysets = Inr data \<longrightarrow>
        (\<exists>s a ow t.
           get_userstories_statuses db gettext project q1 = Inr s \<and>
           get_userstories_assigned_to db project q2 = Inr a \<and>
           get_userstories_owners db project q3 = Inr ow \<and>
           get_userstories_tags db q4 = Inr t \<and>
           data = [(''statuses'', StatusFacets s), (''assigned_to'', UserFacets a),
                   (''owners'', UserFacets ow), (''tags'', TagFacets t)]))"
proof -
  note b = filters_data_bind[OF assms, of db gettext project]
  have c1: "get_userstories_filters_data db gettext project querysets = Inl e"
    if "get_userstories_statuses db gettext project q1 = Inl e"
    unfolding b that bind_error_Inl ..
  have c2: "get_userstories_filters_data db gettext project querysets = Inl e"
    if "get_userstories_statuses db gettext project q1 = Inr r1"
      and "get_userstories_assigned_to db project q2 = Inl e"
    unfolding b that bind_error_Inl bind_error_Inr ..
  have c3: "get_userstories_filters_data db gettext project querysets = Inl e"
    if "get_userstories_statuses db gettext project q1 = Inr r1"
      and "get_userstories_assigned_to db project q2 = Inr r2"
      and "get_userstories_owners db project q3 = Inl e"
    unfolding b that bind_error_Inl bind_error_Inr ..
  have c4: "get_userstories_filters_data db gettext project querysets = Inl e"
    if "get_userstories_statuses db gettext project q1 = Inr r1"
      and "get_userstories_assigned_to db project q2 = Inr r2"
      and "get_userstories_owners db project q3 = Inr r3"
      and "get_userstories_tags db q4 = Inl e"
    unfolding b that bind_error_Inl bind_error_Inr ..
  have c5: "\<exists>s a ow t.
           get_userstories_statuses db gettext project q1 = Inr s \<and>
           get_userstories_assigned_to db project q2 = Inr a \<and>
           get_userstories_owners db project q3 = Inr ow \<and>
           get_userstories_tags db q4 = Inr t \<and>
           data = [(''statuses'', StatusFacets s), (''assigned_to'', UserFacets a),
                   (''owners'', UserFacets ow), (''tags'', TagFacets t)]"
    if d: "get_userstories_filters_data db gettext project querysets = Inr data"
  proof (cases "get_userstories_statuses db gettext project q1")
    case (Inl x)
    then show ?thesis using d unfolding b by (simp add: bind_error_Inl)
  next
    case s: (Inr s)
    show ?thesis
    proof (cases "get_userstories_assigned_to db project q2")
      case (Inl x)
      then show ?thesis using d s unfolding b by (simp add: bind_error_Inl bind_error_Inr)
    next
      case a: (Inr a)
      show ?thesis
      proof (cases "get_userstories_owners db project q3")
        case (Inl x)
        then show ?thesis using d s a unfolding b by (simp add: bind_error_Inl bind_error_Inr)
      next
        case ow: (Inr ow)
        show ?thesis
        proof (cases "get_userstories_tags db q4")
          case (Inl x)
          then show ?thesis using d s a ow unfolding b
            by (simp add: bind_error_Inl bind_error_Inr)
        next
          case t: (Inr t)
          show ?thesis using d unfolding b s a ow t
            by (simp add: bind_error_Inr)
        qed
      qed
    qed
  qed
  show ?thesis using c1 c2 c3 c4 c5 by blast
qed

theorem filters_data_all_or_nothing_witness:
  "broken_querysets ''statuses'' = Some in_project_qs \<and>
   broken_querysets ''assigned_to'' = Some in_project_qs \<and>
   broken_querysets ''owners'' = Some failing_qs \<and>
   broken_querysets ''tags'' = Some in_project_qs \<and>
   get_userstories_statuses demo_db (\<lambda>s. s) demo_project in_project_qs =
     Inr [\<lparr>sf_id = 1, sf_name = ''New'', sf_color = ''#999'', sf_order = 1, sf_count = 2\<rparr>,
          \<lparr>sf_id = 2, sf_name = ''Done'', sf_color = ''#0f0'', sf_order = 2, sf_count = 1\<rparr>,
          \<lparr>sf_id = 4, sf_name = ''Ready'', sf_color = ''#00f'', sf_order = 3, sf_count = 0\<rparr>] \<and>
   get_userstories_assigned_to demo_db demo_project in_project_qs =
     Inr [\<lparr>uf_id = None, uf_full_name = [], uf_count = 1\<rparr>,
          \<lparr>uf_id = Some 1, uf_full_name = ''Alice'', uf_count = 2\<rparr>,
          \<lparr>uf_id = Some 2, uf_full_name = ''Bob'', uf_count = 0\<rparr>] \<and>
   get_userstories_owners demo_db demo_project failing_qs = Inl DatabaseError \<and>
   get_userstories_filters_data demo_db (\<lambda>s. s) demo_project broken_querysets = Inl DatabaseError"
proof -
  have k1: "broken_querysets ''statuses'' = Some in_project_qs"
    and k2: "broken_querysets ''assigned_to'' = Some in_project_qs"
    and k3: "broken_querysets ''owners'' = Some failing_qs"
    and k4: "broken_querysets ''tags'' = Some in_project_qs"
    by (simp_all add: broken_querysets_def)
  from filters_data_all_or_nothing[OF k1 k2 k3 k4, of demo_db "\<lambda>s. s" demo_project DatabaseError]
    demo_statuses demo_assigned_to failing_owners
  have "get_userstories_filters_data demo_db (\<lambda>s. s) demo_project broken_querysets =
        Inl DatabaseError"
    by blast
  then show ?thesis
    using k1 k2 k3 k4 demo_statuses demo_assigned_to failing_owners by simp
qed

section \<open>The project and the counts\<close>




section \<open>Properties of change\_instance\_attr\<close>

text \<open>
  C9, as the code has it, for a wrapped function that returns normally. If the instance
  has the attribute, the wrapped function runs on the instance with the attribute set to
  the new value, and the wrapper then sets the attribute back: after the call it has its
  value from before the call, whatever the wrapped function did to it. If reading the
  attribute raises \<open>AttributeError\<close>, the wrapper sets nothing: the call is the call of the
  wrapped function on the unchanged instance, and the instance is left as that function
  leaves it.
\<close>

theorem change_instance_attr_restores:
  "(inst name = Some old \<and> fn (setattr inst name new_value) args = (Inr ret, inst2) \<longrightarrow>
      change_instance_attr name new_value fn inst args = (Inr ret, setattr inst2 name old) \<and>
      snd (change_instance_attr name new_value fn inst args) name = inst name) \<and>
   (inst name = None \<longrightarrow>
      change_instance_attr name new_value fn inst args = fn inst args)"
proof -
  have p1: "change_instance_attr name new_value fn inst args = (Inr ret, setattr inst2 name old)"
    if "inst name = Some old" and "fn (setattr inst name new_value) args = (Inr ret, inst2)"
    using that by (simp add: change_instance_attr_def getattribute_def)
  have p2: "change_instance_attr name new_value fn inst args = fn inst args"
    if "inst name = None"
  proof (cases "fn inst args")
    case (Pair r i2)
    then show ?thesis
      using that by (cases r) (simp_all add: change_instance_attr_def getattribute_def)
  qed
  show ?thesis
    using p1 p2 by (simp add: setattr_def)
qed

theorem change_instance_attr_restores_witness:
  "[''x'' \<mapsto> (0::int)] ''x'' = Some 0 \<and>
   (\<lambda>i (a::unit). (Inr (i ''x''), i(''x'' \<mapsto> 7))) (setattr [''x'' \<mapsto> (0::int)] ''x'' 1) ()
     = (Inr (Some 1) :: error + int option, [''x'' \<mapsto> 7]) \<and>
   change_instance_attr ''x'' 1 (\<lambda>i (a::unit). (Inr (i ''x''), i(''x'' \<mapsto> 7)))
       [''x'' \<mapsto> (0::int)] ()
     = (Inr (Some 1) :: error + int option, setattr [''x'' \<mapsto> 7] ''x'' 0) \<and>
   snd (change_instance_attr ''x'' 1
          (\<lambda>i (a::unit). (Inr (i ''x'') :: error + int option, i(''x'' \<mapsto> 7)))
          [''x'' \<mapsto> (0::int)] ()) ''x'' = Some 0 \<and>
   (Map.empty :: int obj) ''x'' = None \<and>
   change_instance_attr ''x'' 1 (\<lambda>i (a::unit). (Inr (i ''x'') :: error + int option, i))
       (Map.empty :: int obj) ()
     = (Inr None, Map.empty)"
proof -
  let ?fn = "\<lambda>(i :: int obj) (a::unit). (Inr (i ''x'') :: error + int option, i(''x'' \<mapsto> 7))"
  let ?id = "\<lambda>(i :: int obj) (a::unit). (Inr (i ''x'') :: error + int option, i)"
  have h1: "[''x'' \<mapsto> (0::int)] ''x'' = Some 0"
    by simp
  have h2: "?fn (setattr [''x'' \<mapsto> (0::int)] ''x'' 1) () = (Inr (Some 1), [''x'' \<mapsto> 7])"
    by (simp add: setattr_def)
  have h3: "(Map.empty :: int obj) ''x'' = None"
    by simp
  from change_instance_attr_restores[of "[''x'' \<mapsto> (0::int)]" "''x''" 0 ?fn 1 "()"
      "Some 1" "[''x'' \<mapsto> 7]"] h1 h2
  have ab: "change_instance_attr ''x'' 1 ?fn [''x'' \<mapsto> (0::int)] ()
             = (Inr (Some 1), setattr [''x'' \<mapsto> 7] ''x'' 0) \<and>
        snd (change_instance_attr ''x'' 1 ?fn [''x'' \<mapsto> (0::int)] ()) ''x''
             = [''x'' \<mapsto> (0::int)] ''x''"
    by blast
  then have a: "change_instance_attr ''x'' 1 ?fn [''x'' \<mapsto> (0::int)] ()
             = (Inr (Some 1), setattr [''x'' \<mapsto> 7] ''x'' 0)"
    by blast
  have b: "snd (change_instance_attr ''x'' 1 ?fn [''x'' \<mapsto> (0::int)] ()) ''x'' = Some 0"
    using ab h1 by (elim conjE) (rule trans)
  from change_instance_attr_restores[of "Map.empty :: int obj" "''x''" 0 ?id 1 "()"
      "Some 1" "[''x'' \<mapsto> 7]"] h3
  have "change_instance_attr ''x'' 1 ?id (Map.empty :: int obj) () = ?id Map.empty ()"
    by blast
  then have c: "change_instance_attr ''x'' 1 ?id (Map.empty :: int obj) () = (Inr None, Map.empty)"
    by simp
  show ?thesis
    using h1 h2 h3 a b c by simp
qed

text \<open>
  C9 as stated fails where the instance lacks the attribute and the wrapped function
  creates it: the wrapper does not remove it, so after the call the attribute is set,
  which it was not before.
\<close>

theorem change_instance_attr_absent_counterexample:
  "getattribute (Map.empty :: int obj) ''x'' = Inl (AttributeError ''x'') \<and>
   change_instance_attr ''x'' 1 (\<lambda>i (a::unit). (Inr () :: error + unit, setattr i ''x'' 5))
       (Map.empty :: int obj) ()
     = (Inr (), [''x'' \<mapsto> 5]) \<and>
   snd (change_instance_attr ''x'' 1 (\<lambda>i (a::unit). (Inr () :: error + unit, setattr i ''x'' 5))
          (Map.empty :: int obj) ()) ''x'' \<noteq> (Map.empty :: int obj) ''x''"
  by (simp add: change_instance_attr_def getattribute_def setattr_def)

end
